theory Spec2Isabelle
  imports Complex_Main
begin

section \<open>Python values\<close>

text \<open>
  A Python float is an IEEE 754 double. A finite double is modelled by the real number
  it denotes, and NaN by a value of its own; comparisons with NaN are all false. Every
  arithmetic operation computes the exact real result and rounds it to the nearest
  double, a tie going to the one with an even significand (\<open>rnd53\<close>). Left out of the
  model: the infinities (a result of magnitude \<open>2^1024\<close> or more), and the sign of zero.
  An integer that comes out of the JSON decoder stands for itself.
\<close>

datatype pyfloat = Fin real | NaN

datatype py_error =
    HTTPError nat | URLError | TimeoutError | UnicodeDecodeError | JSONDecodeError
  | KeyError | TypeError | AttributeError | IndexError | ValueError
  | ZeroDivisionError | OverflowError

text \<open>\<open>log2n n\<close> is the integer part of the binary logarithm of \<open>n > 0\<close>.\<close>

fun log2n :: "nat \<Rightarrow> nat" where
  "log2n n = (if n < 2 then 0 else 1 + log2n (n div 2))"

text \<open>The exponent \<open>e\<close> of a positive real \<open>x\<close>: \<open>2^e \<le> x < 2^(e+1)\<close>.\<close>

definition float_exponent :: "real \<Rightarrow> int" where
  "float_exponent x =
     (if 1 \<le> x then int (log2n (nat \<lfloor>x\<rfloor>))
      else - int (log2n (nat (\<lceil>1 / x\<rceil> - 1))) - 1)"

definition pow2 :: "int \<Rightarrow> real" where
  "pow2 e = (if 0 \<le> e then 2 ^ nat e else 1 / 2 ^ nat (- e))"

text \<open>The nearest integer, a tie going to the even one.\<close>

definition round_half_even :: "real \<Rightarrow> int" where
  "round_half_even y =
     (let f = \<lfloor>y\<rfloor>; d = y - of_int f
      in if d < 1 / 2 then f
         else if 1 / 2 < d then f + 1
         else if even f then f else f + 1)"

text \<open>
  The nearest double: 53 significant bits, with the fixed spacing \<open>2^(-1074)\<close> below the
  smallest normal exponent \<open>-1022\<close>.
\<close>

definition rnd53 :: "real \<Rightarrow> real" where
  "rnd53 x =
     (if x = 0 then 0
      else (let e = max (float_exponent \<bar>x\<bar>) (- 1022); u = pow2 (e - 52)
            in of_int (round_half_even (x / u)) * u))"

fun py_gt :: "pyfloat \<Rightarrow> pyfloat \<Rightarrow> bool" where
  "py_gt (Fin a) (Fin b) = (a > b)"
| "py_gt _ _ = False"

fun py_lt :: "pyfloat \<Rightarrow> pyfloat \<Rightarrow> bool" where
  "py_lt (Fin a) (Fin b) = (a < b)"
| "py_lt _ _ = False"

fun py_sub :: "pyfloat \<Rightarrow> pyfloat \<Rightarrow> pyfloat" where
  "py_sub (Fin a) (Fin b) = Fin (rnd53 (a - b))"
| "py_sub _ _ = NaN"

fun py_mul :: "pyfloat \<Rightarrow> pyfloat \<Rightarrow> pyfloat" where
  "py_mul (Fin a) (Fin b) = Fin (rnd53 (a * b))"
| "py_mul _ _ = NaN"

text \<open>Float division raises ZeroDivisionError on a zero divisor, whatever the dividend.\<close>

fun py_div :: "pyfloat \<Rightarrow> pyfloat \<Rightarrow> py_error + pyfloat" where
  "py_div a (Fin b) =
     (if b = 0 then Inl ZeroDivisionError
      else (case a of Fin x \<Rightarrow> Inr (Fin (rnd53 (x / b))) | NaN \<Rightarrow> Inr NaN))"
| "py_div a NaN = Inr NaN"

text \<open>
  \<open>round(x, 2)\<close> on a float: the exact value of \<open>x\<close> is rounded to the nearest multiple
  of 1/100, a tie going to the even one (\<open>round2\<close>), and the result is the double
  nearest to that decimal number.
\<close>

definition round2 :: "real \<Rightarrow> real" where
  "round2 x = of_int (round_half_even (x * 100)) / 100"

fun py_round2 :: "pyfloat \<Rightarrow> pyfloat" where
  "py_round2 (Fin x) = Fin (rnd53 (round2 x))"
| "py_round2 NaN = NaN"

text \<open>
  \<open>max(xs)\<close> and \<open>min(xs)\<close> keep the first extreme element: a later element replaces
  the current one only when it compares strictly greater (smaller).
\<close>

fun py_max :: "pyfloat list \<Rightarrow> py_error + pyfloat" where
  "py_max [] = Inl ValueError"
| "py_max (x # xs) = Inr (fold (\<lambda>y m. if py_gt y m then y else m) xs x)"

fun py_min :: "pyfloat list \<Rightarrow> py_error + pyfloat" where
  "py_min [] = Inl ValueError"
| "py_min (x # xs) = Inr (fold (\<lambda>y m. if py_lt y m then y else m) xs x)"

text \<open>\<open>s.endswith(suf)\<close>.\<close>

definition endswith :: "string \<Rightarrow> string \<Rightarrow> bool" where
  "endswith s suf = (length suf \<le> length s \<and> drop (length s - length suf) s = suf)"

section \<open>Ticker normalisation\<close>

text \<open>
  \<^verbatim>\<open>if not ticker.endswith('.T'): ticker = ticker + '.T'\<close>
  (the single-ticker route and the batch route of \<open>lambda_handler\<close>).
\<close>

definition normalize_ticker :: "string \<Rightarrow> string" where
  "normalize_ticker t = (if \<not> endswith t ''.T'' then t @ ''.T'' else t)"

section \<open>Summary statistics\<close>

record price_point =
  p_time :: string
  p_value :: pyfloat

record stats =
  current_price :: pyfloat
  year_high :: pyfloat
  year_low :: pyfloat
  year_change_pct :: pyfloat
  data_points :: nat

text \<open>
  The reduction of \<open>get_stock_price_yfinance_v8\<close> (lambda_function.py), on the list
  \<open>valid_prices\<close>, which the caller has checked to be non-empty:
  \<^verbatim>\<open>
  "current_price": valid_prices[-1],
  "year_high": max(valid_prices),
  "year_low": min(valid_prices),
  "year_change_pct": round(((valid_prices[-1] - valid_prices[0]) / valid_prices[0]) * 100, 2)
                     if len(valid_prices) > 1 else 0,
  "data_points": len(chart_data)
  \<close>
\<close>

definition lambda_stats :: "pyfloat list \<Rightarrow> py_error + stats" where
  "lambda_stats valid_prices =
     (case valid_prices of
        [] \<Rightarrow> Inl IndexError
      | first # _ \<Rightarrow>
          (case py_max valid_prices of Inl e \<Rightarrow> Inl e | Inr hi \<Rightarrow>
          (case py_min valid_prices of Inl e \<Rightarrow> Inl e | Inr lo \<Rightarrow>
          (case (if length valid_prices > 1
                 then (case py_div (py_sub (last valid_prices) first) first of
                         Inl e \<Rightarrow> Inl e
                       | Inr q \<Rightarrow> Inr (py_round2 (py_mul q (Fin 100))))
                 else Inr (Fin 0)) of Inl e \<Rightarrow> Inl e | Inr pct \<Rightarrow>
           Inr \<lparr>current_price = last valid_prices, year_high = hi, year_low = lo,
                year_change_pct = pct, data_points = length valid_prices\<rparr>))))"

text \<open>
  The reduction of \<open>fetch_data\<close> (scripts/fetch_prices.py), on
  \<open>prices = [d['value'] for d in chart_data]\<close>:
  \<^verbatim>\<open>
  current_price = prices[-1]
  year_high = max(prices)
  year_low = min(prices)
  year_change = ((current_price - prices[0]) / prices[0]) * 100
  ... "year_change_pct": round(year_change, 2), "data_points": len(chart_data)
  \<close>
\<close>

definition offline_stats :: "pyfloat list \<Rightarrow> py_error + stats" where
  "offline_stats prices =
     (case prices of
        [] \<Rightarrow> Inl IndexError
      | first # _ \<Rightarrow>
          (case py_max prices of Inl e \<Rightarrow> Inl e | Inr hi \<Rightarrow>
          (case py_min prices of Inl e \<Rightarrow> Inl e | Inr lo \<Rightarrow>
          (case py_div (py_sub (last prices) first) first of Inl e \<Rightarrow> Inl e | Inr q \<Rightarrow>
           Inr \<lparr>current_price = last prices, year_high = hi, year_low = lo,
                year_change_pct = py_round2 (py_mul q (Fin 100)),
                data_points = length prices\<rparr>))))"

section \<open>Decoded JSON and the dynamic operations the code applies to it\<close>

text \<open>
  What \<open>json.loads\<close> returns. An object is the list of its items (keys distinct, in
  document order). A string is a list of characters.
\<close>

datatype json =
    JNull | JBool bool | JNum pyfloat | JStr string
  | JArr "json list" | JObj "(string \<times> json) list"

text \<open>Truthiness (\<open>not x\<close>, \<open>if x\<close>, \<open>x or y\<close>).\<close>

fun py_truthy :: "json \<Rightarrow> bool" where
  "py_truthy JNull = False"
| "py_truthy (JBool b) = b"
| "py_truthy (JNum (Fin r)) = (r \<noteq> 0)"
| "py_truthy (JNum NaN) = True"
| "py_truthy (JStr s) = (s \<noteq> [])"
| "py_truthy (JArr xs) = (xs \<noteq> [])"
| "py_truthy (JObj kvs) = (kvs \<noteq> [])"

text \<open>\<open>sub in s\<close> on two strings: \<open>sub\<close> occurs in \<open>s\<close> as a contiguous run.\<close>

fun str_contains :: "string \<Rightarrow> string \<Rightarrow> bool" where
  "str_contains [] sub = (sub = [])"
| "str_contains (c # cs) sub = (take (length sub) (c # cs) = sub \<or> str_contains cs sub)"

text \<open>
  \<open>k in x\<close> for a string \<open>k\<close>: key membership on a dict, element membership on a list,
  substring on a string, TypeError on anything else.
\<close>

fun py_contains :: "string \<Rightarrow> json \<Rightarrow> py_error + bool" where
  "py_contains k (JObj kvs) = Inr (k \<in> set (map fst kvs))"
| "py_contains k (JArr xs) = Inr (JStr k \<in> set xs)"
| "py_contains k (JStr s) = Inr (str_contains s k)"
| "py_contains k _ = Inl TypeError"

text \<open>\<open>x[k]\<close> for a string \<open>k\<close>.\<close>

fun py_getitem_key :: "json \<Rightarrow> string \<Rightarrow> py_error + json" where
  "py_getitem_key (JObj kvs) k = (case map_of kvs k of None \<Rightarrow> Inl KeyError | Some v \<Rightarrow> Inr v)"
| "py_getitem_key _ k = Inl TypeError"

text \<open>
  \<open>x[i]\<close> for an index \<open>i \<ge> 0\<close>. A decoded object has string keys only, so an integer
  subscript is a KeyError there.
\<close>

fun py_getitem_idx :: "json \<Rightarrow> nat \<Rightarrow> py_error + json" where
  "py_getitem_idx (JArr xs) i = (if i < length xs then Inr (xs ! i) else Inl IndexError)"
| "py_getitem_idx (JStr s) i = (if i < length s then Inr (JStr [s ! i]) else Inl IndexError)"
| "py_getitem_idx (JObj kvs) i = Inl KeyError"
| "py_getitem_idx _ i = Inl TypeError"

fun py_len :: "json \<Rightarrow> py_error + nat" where
  "py_len (JArr xs) = Inr (length xs)"
| "py_len (JStr s) = Inr (length s)"
| "py_len (JObj kvs) = Inr (length kvs)"
| "py_len _ = Inl TypeError"

text \<open>\<open>x.get(k, default)\<close>: only a dict has the method.\<close>

fun py_get :: "json \<Rightarrow> string \<Rightarrow> json \<Rightarrow> py_error + json" where
  "py_get (JObj kvs) k d = Inr (case map_of kvs k of None \<Rightarrow> d | Some v \<Rightarrow> v)"
| "py_get _ k d = Inl AttributeError"

text \<open>\<open>for q in x\<close>: the elements of a list, the keys of a dict, the characters of a string.\<close>

fun py_iter :: "json \<Rightarrow> py_error + json list" where
  "py_iter (JArr xs) = Inr xs"
| "py_iter (JObj kvs) = Inr (map (\<lambda>kv. JStr (fst kv)) kvs)"
| "py_iter (JStr s) = Inr (map (\<lambda>c. JStr [c]) s)"
| "py_iter _ = Inl TypeError"

text \<open>A value used as a number (\<open>bool\<close> is a subclass of \<open>int\<close>); TypeError otherwise.\<close>

fun py_number :: "json \<Rightarrow> py_error + pyfloat" where
  "py_number (JNum f) = Inr f"
| "py_number (JBool b) = Inr (Fin (if b then 1 else 0))"
| "py_number _ = Inl TypeError"

section \<open>The outside world\<close>

text \<open>
  What the program does not compute itself is a parameter:
  \<^item> \<open>chart_api ticker interval\<close>: the outcome of \<open>urlopen\<close>, \<open>read\<close>, \<open>decode\<close> and
    \<open>json.loads\<close> on the chart URL: an exception (HTTPError for a non-2xx status, URLError,
    a timeout, undecodable bytes, malformed JSON, an invalid URL) or the decoded document;
  \<^item> \<open>search_api query\<close>: the same for the search URL;
  \<^item> \<open>strftime_jst intraday ts\<close>: \<open>datetime.fromtimestamp(ts, tz=utc).astimezone(JST)\<close>
    formatted with \<open>'%Y-%m-%d %H:%M'\<close> when \<open>intraday\<close> and \<open>'%Y-%m-%d'\<close> otherwise; it
    raises on NaN and on an instant out of the calendar's range;
  \<^item> \<open>float_of_string s\<close>: \<open>float(s)\<close> on a string (ValueError when it is no number);
  \<^item> \<open>now_jst\<close> and \<open>now_iso\<close>: \<open>datetime.now(JST)\<close> as \<open>'%Y-%m-%d %H:%M:%S'\<close> and in
    ISO format.
\<close>

record env =
  chart_api :: "string \<Rightarrow> string \<Rightarrow> py_error + json"
  search_api :: "string \<Rightarrow> py_error + json"
  strftime_jst :: "bool \<Rightarrow> pyfloat \<Rightarrow> py_error + string"
  float_of_string :: "string \<Rightarrow> py_error + pyfloat"
  now_jst :: string
  now_iso :: string

text \<open>\<open>float(x)\<close> on a decoded value.\<close>

fun py_float :: "env \<Rightarrow> json \<Rightarrow> py_error + pyfloat" where
  "py_float w (JNum f) = Inr f"
| "py_float w (JBool b) = Inr (Fin (if b then 1 else 0))"
| "py_float w (JStr s) = float_of_string w s"
| "py_float w _ = Inl TypeError"

section \<open>Quote Fetcher: \<open>get_stock_price_yfinance_v8\<close>\<close>

text \<open>Sequencing of statements that may raise: the first exception ends the block.\<close>

definition try_bind :: "'e + 'a \<Rightarrow> ('a \<Rightarrow> 'e + 'b) \<Rightarrow> 'e + 'b" where
  "try_bind m f = (case m of Inl e \<Rightarrow> Inl e | Inr x \<Rightarrow> f x)"

text \<open>
  The dict the fetcher returns: the series, the statistics and the display name
  (\<open>meta.get('shortName', ticker)\<close>, whatever JSON value the provider put there).
\<close>

record stock_data = stats +
  data :: "price_point list"
  short_name :: json

definition with_series :: "stats \<Rightarrow> price_point list \<Rightarrow> json \<Rightarrow> stock_data" where
  "with_series st cd sn =
     \<lparr>current_price = current_price st, year_high = year_high st, year_low = year_low st,
      year_change_pct = year_change_pct st, data_points = data_points st,
      data = cd, short_name = sn\<rparr>"

text \<open>
  The loop over \<open>range(len(timestamps))\<close>, on the list of its indices:
  \<^verbatim>\<open>
  for i in range(len(timestamps)):
      if i >= len(prices) or prices[i] is None:
          continue
      utc_time = datetime.fromtimestamp(timestamps[i], tz=timezone.utc)
      jst_time = utc_time.astimezone(JST)
      if interval in ['15m', '30m', '60m']: date = jst_time.strftime('%Y-%m-%d %H:%M')
      else: date = jst_time.strftime('%Y-%m-%d')
      price = float(prices[i])
      chart_data.append({"time": date, "value": price})
      valid_prices.append(price)
  \<close>
  \<open>valid_prices\<close> is \<open>map p_value chart_data\<close> throughout.
\<close>

fun chart_loop :: "env \<Rightarrow> bool \<Rightarrow> json \<Rightarrow> json \<Rightarrow> nat list \<Rightarrow> py_error + price_point list" where
  "chart_loop w intraday timestamps prices [] = Inr []"
| "chart_loop w intraday timestamps prices (i # rest) =
     try_bind (py_len prices) (\<lambda>n.
       if i \<ge> n then chart_loop w intraday timestamps prices rest
       else try_bind (py_getitem_idx prices i) (\<lambda>p.
         if p = JNull then chart_loop w intraday timestamps prices rest
         else try_bind (py_getitem_idx timestamps i) (\<lambda>t.
              try_bind (py_number t) (\<lambda>ts.
              try_bind (strftime_jst w intraday ts) (\<lambda>date.
              try_bind (py_float w p) (\<lambda>price.
              try_bind (chart_loop w intraday timestamps prices rest) (\<lambda>more.
                Inr (\<lparr>p_time = date, p_value = price\<rparr> # more))))))))"

text \<open>The body of the \<open>try\<close> block; \<open>Inr None\<close> is an early \<open>return None\<close>.\<close>

definition fetch_body :: "env \<Rightarrow> string \<Rightarrow> string \<Rightarrow> py_error + stock_data option" where
  "fetch_body w ticker interval =
     try_bind (chart_api w ticker interval) (\<lambda>data.
     try_bind (py_contains ''chart'' data) (\<lambda>has_chart.
     try_bind (if \<not> has_chart then Inr True
               else try_bind (py_getitem_key data ''chart'') (\<lambda>c.
                    try_bind (py_contains ''result'' c) (\<lambda>has_result. Inr (\<not> has_result))))
       (\<lambda>invalid.
     if invalid then Inr None
     else
     try_bind (py_getitem_key data ''chart'') (\<lambda>chart.
     try_bind (py_getitem_key chart ''result'') (\<lambda>result.
     try_bind (if \<not> py_truthy result then Inr True
               else try_bind (py_len result) (\<lambda>n. Inr (n = 0)))
       (\<lambda>no_data.
     if no_data then Inr None
     else
     try_bind (py_getitem_idx result 0) (\<lambda>quote.
     try_bind (py_get quote ''meta'' (JObj [])) (\<lambda>meta.
     try_bind (py_get meta ''shortName'' (JStr ticker)) (\<lambda>sn.
     try_bind (py_get quote ''timestamp'' (JArr [])) (\<lambda>timestamps.
     try_bind (py_get quote ''indicators'' (JObj [])) (\<lambda>indicators.
     try_bind (py_get indicators ''quote'' (JArr [JObj []])) (\<lambda>quotes.
     try_bind (py_getitem_idx quotes 0) (\<lambda>q0.
     try_bind (py_get q0 ''close'' (JArr [])) (\<lambda>prices.
     if \<not> py_truthy timestamps \<or> \<not> py_truthy prices then Inr None
     else
     try_bind (py_len timestamps) (\<lambda>n.
     try_bind (chart_loop w (interval \<in> set [''15m'', ''30m'', ''60m'']) timestamps prices [0..<n])
       (\<lambda>chart_data.
     if map p_value chart_data = [] then Inr None
     else
     try_bind (lambda_stats (map p_value chart_data)) (\<lambda>st.
     Inr (Some (with_series st chart_data sn)))))))))))))))))))"

text \<open>
  The function with its three handlers; each of them returns None:
  \<^verbatim>\<open>
  except urllib.error.HTTPError as e: ... return None
  except urllib.error.URLError as e: ... return None
  except Exception as e: ... return None
  \<close>
  Every constructor of \<open>py_error\<close> is a subclass of \<open>Exception\<close>.
\<close>

definition get_stock_price_yfinance_v8 ::
  "env \<Rightarrow> string \<Rightarrow> string \<Rightarrow> py_error + stock_data option" where
  "get_stock_price_yfinance_v8 w ticker interval =
     (case fetch_body w ticker interval of
        Inl (HTTPError code) \<Rightarrow> Inr None
      | Inl URLError \<Rightarrow> Inr None
      | Inl e \<Rightarrow> Inr None
      | Inr r \<Rightarrow> Inr r)"

section \<open>Ticker Search: \<open>search_ticker\<close>\<close>

text \<open>
  One entry of the result list,
  \<open>{"symbol": ..., "name": ..., "type": ..., "exchange": ...}\<close>. The values are whatever
  JSON values the provider sent.
\<close>

record search_result =
  sr_symbol :: json
  sr_name :: json
  sr_type :: json
  sr_exchange :: json

text \<open>\<open>symbol.endswith('.T')\<close>: only a string has the method.\<close>

fun py_endswith :: "json \<Rightarrow> string \<Rightarrow> py_error + bool" where
  "py_endswith (JStr s) suf = Inr (endswith s suf)"
| "py_endswith _ suf = Inl AttributeError"

text \<open>
  \<^verbatim>\<open>
  for quote in quotes:
      symbol = quote.get('symbol', '')
      if symbol.endswith('.T'):
          results.append({
              "symbol": symbol,
              "name": quote.get('shortname', quote.get('longname', symbol)),
              "type": quote.get('typeDisp', 'Stock'),
              "exchange": quote.get('exchange', '')})
  \<close>
  The default of the outer \<open>get\<close> is evaluated first, as Python evaluates arguments.
\<close>

fun search_loop :: "json list \<Rightarrow> py_error + search_result list" where
  "search_loop [] = Inr []"
| "search_loop (quote # rest) =
     try_bind (py_get quote ''symbol'' (JStr [])) (\<lambda>symbol.
     try_bind (py_endswith symbol ''.T'') (\<lambda>keep.
       if keep then
         try_bind (py_get quote ''longname'' symbol) (\<lambda>longname.
         try_bind (py_get quote ''shortname'' longname) (\<lambda>nm.
         try_bind (py_get quote ''typeDisp'' (JStr ''Stock'')) (\<lambda>ty.
         try_bind (py_get quote ''exchange'' (JStr [])) (\<lambda>ex.
         try_bind (search_loop rest) (\<lambda>more.
           Inr (\<lparr>sr_symbol = symbol, sr_name = nm, sr_type = ty, sr_exchange = ex\<rparr> # more))))))
       else search_loop rest))"

definition search_body :: "env \<Rightarrow> string \<Rightarrow> py_error + search_result list" where
  "search_body w query =
     try_bind (search_api w query) (\<lambda>data.
     try_bind (py_get data ''quotes'' (JArr [])) (\<lambda>quotes.
     try_bind (py_iter quotes) search_loop))"

text \<open>\<^verbatim>\<open>except Exception as e: ... return []\<close>\<close>

definition search_ticker :: "env \<Rightarrow> string \<Rightarrow> py_error + search_result list" where
  "search_ticker w query =
     (case search_body w query of Inl e \<Rightarrow> Inr [] | Inr results \<Rightarrow> Inr results)"

section \<open>Request Router: \<open>lambda_handler\<close>\<close>

text \<open>
  The event of the API gateway: the method of a REST event (\<open>event['httpMethod']\<close>), the
  method of an HTTP-API event (\<open>event['requestContext']['http']['method']\<close>) and the query
  parameters, a dict from strings to strings or absent. A character is a code point
  below 256.
\<close>

record event =
  httpMethod :: "string option"
  requestContext_http_method :: "string option"
  queryStringParameters :: "(string \<rightharpoonup> string) option"

text \<open>
  The fixed texts of the error bodies are Japanese sentences; a message is represented by
  its kind and the part the code interpolates into it:
  \<^item> \<open>SearchQueryRequired\<close>: the search route without \<open>q\<close>;
  \<^item> \<open>InvalidInterval l\<close>: the fixed text followed by \<open>l = ', '.join(valid_intervals)\<close>;
  \<^item> \<open>TickerRequired\<close>: the single-ticker route without \<open>ticker\<close>;
  \<^item> \<open>NoData t\<close>: the fixed text around the ticker \<open>t\<close>.
\<close>

datatype error_msg =
  SearchQueryRequired | InvalidInterval string | TickerRequired | NoData string

text \<open>An entry of \<open>result["stocks"]\<close>: \<open>{"name": ..., "ticker": ..., **stock_data}\<close>.\<close>

record stock_entry = stock_data +
  name :: json
  ticker :: string

definition with_name :: "stock_data \<Rightarrow> json \<Rightarrow> string \<Rightarrow> stock_entry" where
  "with_name sd n t =
     \<lparr>current_price = current_price sd, year_high = year_high sd, year_low = year_low sd,
      year_change_pct = year_change_pct sd, data_points = data_points sd,
      data = data sd, short_name = short_name sd, name = n, ticker = t\<rparr>"

record batch_summary =
  total_tickers :: nat
  successful :: nat
  failed :: nat
  failed_tickers :: "string list"

record batch_result =
  updated_at :: string
  updated_at_jst :: string
  timezone :: string
  stocks :: "(string \<times> stock_entry) list"
  summary :: batch_summary

text \<open>
  The body of a response, before \<open>json.dumps\<close>: the empty string of the preflight
  answer, or the dict that is serialised.
\<close>

datatype body =
    EmptyBody
  | ErrorBody error_msg
  | SearchBody "search_result list" string string
  | StockBody stock_entry string
  | BatchBody batch_result

record response =
  statusCode :: nat
  headers :: "(string \<times> string) list"
  body :: body

text \<open>A call of one of the two fetchers, in the order the handler makes them.\<close>

datatype call = FetchCall string string | SearchCall string

text \<open>\<open>d[k] = v\<close> on a dict kept as the list of its items, in insertion order.\<close>

fun dict_set :: "('k \<times> 'v) list \<Rightarrow> 'k \<Rightarrow> 'v \<Rightarrow> ('k \<times> 'v) list" where
  "dict_set [] k v = [(k, v)]"
| "dict_set ((k', v') # kvs) k v =
     (if k' = k then (k, v) # kvs else (k', v') # dict_set kvs k v)"

definition cors_headers :: "(string \<times> string) list" where
  "cors_headers =
     [(''Access-Control-Allow-Origin'', ''*''),
      (''Access-Control-Allow-Headers'',
         ''Content-Type,X-Amz-Date,Authorization,X-Api-Key,X-Amz-Security-Token''),
      (''Access-Control-Allow-Methods'', ''GET,OPTIONS,POST''),
      (''Access-Control-Max-Age'', ''86400'')]"

text \<open>\<open>{**cors_headers, 'Content-Type': 'application/json; charset=utf-8'}\<close>\<close>

definition json_headers :: "(string \<times> string) list" where
  "json_headers = dict_set cors_headers ''Content-Type'' ''application/json; charset=utf-8''"

text \<open>The same with \<open>'Cache-Control': 'public, max-age=300'\<close>.\<close>

definition cached_headers :: "(string \<times> string) list" where
  "cached_headers = dict_set json_headers ''Cache-Control'' ''public, max-age=300''"

definition valid_intervals :: "string list" where
  "valid_intervals = [''15m'', ''30m'', ''60m'', ''1d'', ''1wk'', ''1mo'']"

text \<open>\<open>sep.join(xs)\<close>.\<close>

fun join :: "string \<Rightarrow> string list \<Rightarrow> string" where
  "join sep [] = []"
| "join sep [x] = x"
| "join sep (x # y # ys) = x @ sep @ join sep (y # ys)"

text \<open>\<open>str(n)\<close> for a count.\<close>

fun str_nat :: "nat \<Rightarrow> string" where
  "str_nat n =
     (if n < 10 then [char_of (48 + n)]
      else str_nat (n div 10) @ [char_of (48 + n mod 10)])"

text \<open>
  \<open>s.split(',')\<close> and \<open>s.strip()\<close>. The whitespace of \<open>str.isspace\<close> below code point
  256: 9 to 13, 28 to 32, 133 and 160.
\<close>

fun split_comma :: "string \<Rightarrow> string list" where
  "split_comma [] = [[]]"
| "split_comma (c # cs) =
     (if c = CHR '','' then [] # split_comma cs
      else (case split_comma cs of [] \<Rightarrow> [[c]] | x # xs \<Rightarrow> (c # x) # xs))"

definition py_isspace :: "char \<Rightarrow> bool" where
  "py_isspace c = ((of_char c :: nat) \<in> set [9, 10, 11, 12, 13, 28, 29, 30, 31, 32, 133, 160])"

definition strip :: "string \<Rightarrow> string" where
  "strip s = rev (dropWhile py_isspace (rev (dropWhile py_isspace s)))"

text \<open>
  The explicit ticker list of the batch route:
  \<^verbatim>\<open>
  ticker_list = [t.strip() for t in tickers_param.split(',') if t.strip()]
  TICKERS = {}
  for t in ticker_list:
      if not t.endswith('.T'):
          t = t + '.T'
      TICKERS[t] = t
  \<close>
\<close>

definition ticker_list :: "string \<Rightarrow> string list" where
  "ticker_list tickers_param =
     map strip (filter (\<lambda>t. strip t \<noteq> []) (split_comma tickers_param))"

fun tickers_of_list :: "string list \<Rightarrow> (string \<times> string) list \<Rightarrow> (string \<times> string) list" where
  "tickers_of_list [] TICKERS = TICKERS"
| "tickers_of_list (t # ts) TICKERS =
     tickers_of_list ts (dict_set TICKERS (normalize_ticker t) (normalize_ticker t))"

text \<open>
  The default ticker dict. Its values are the Japanese company names; they are written to
  the log only and are transliterated here.
\<close>

definition default_tickers :: "(string \<times> string) list" where
  "default_tickers =
     [(''7203.T'', ''Toyota Jidosha''), (''6758.T'', ''Sony Group''),
      (''9984.T'', ''SoftBank Group''), (''6861.T'', ''Keyence''),
      (''8306.T'', ''Mitsubishi UFJ'')]"

text \<open>\<open>TICKERS\<close> of the batch route: \<open>if tickers_param: ... else: ...\<close>\<close>

definition batch_tickers :: "string \<Rightarrow> (string \<times> string) list" where
  "batch_tickers tickers_param =
     (if tickers_param \<noteq> [] then tickers_of_list (ticker_list tickers_param) []
      else default_tickers)"

text \<open>
  The loop over \<open>TICKERS.items()\<close>; the state is \<open>result\<close> and the calls made so far.
  \<^verbatim>\<open>
  stock_data = get_stock_price_yfinance_v8(ticker, interval)
  if stock_data:
      result["stocks"][ticker] = {"name": stock_data.get('short_name', name),
                                  "ticker": ticker, **stock_data}
      result["summary"]["successful"] += 1
  else:
      result["summary"]["failed"] += 1
      result["summary"]["failed_tickers"].append(ticker)
  \<close>
\<close>

fun batch_loop ::
  "env \<Rightarrow> string \<Rightarrow> (string \<times> string) list \<Rightarrow> batch_result \<times> call list
     \<Rightarrow> py_error + batch_result \<times> call list" where
  "batch_loop w interval [] st = Inr st"
| "batch_loop w interval ((t, nm) # rest) (result, calls) =
     try_bind (get_stock_price_yfinance_v8 w t interval) (\<lambda>fetched.
       batch_loop w interval rest
         (case fetched of
            Some sd \<Rightarrow>
              result\<lparr>stocks := dict_set (stocks result) t (with_name sd (short_name sd) t),
                     summary := (summary result)\<lparr>successful := successful (summary result) + 1\<rparr>\<rparr>
          | None \<Rightarrow>
              result\<lparr>summary := (summary result)
                       \<lparr>failed := failed (summary result) + 1,
                        failed_tickers := failed_tickers (summary result) @ [t]\<rparr>\<rparr>,
          calls @ [FetchCall t interval]))"

text \<open>
  \<^verbatim>\<open>http_method = event.get('httpMethod') or
                event.get('requestContext', {}).get('http', {}).get('method')\<close>
\<close>

definition http_method :: "event \<Rightarrow> string option" where
  "http_method ev =
     (case httpMethod ev of
        Some m \<Rightarrow> if m \<noteq> [] then Some m else requestContext_http_method ev
      | None \<Rightarrow> requestContext_http_method ev)"

text \<open>\<open>query_params = event.get('queryStringParameters') or {}\<close>\<close>

definition query_params :: "event \<Rightarrow> (string \<rightharpoonup> string)" where
  "query_params ev = (case queryStringParameters ev of None \<Rightarrow> Map.empty | Some q \<Rightarrow> q)"

text \<open>\<open>d.get(k, default)\<close> on the query parameters.\<close>

definition param :: "(string \<rightharpoonup> string) \<Rightarrow> string \<Rightarrow> string \<Rightarrow> string" where
  "param q k d = (case q k of None \<Rightarrow> d | Some v \<Rightarrow> v)"

definition invalid_interval_response :: response where
  "invalid_interval_response =
     \<lparr>statusCode = 400, headers = json_headers,
      body = ErrorBody (InvalidInterval (join '', '' valid_intervals))\<rparr>"

text \<open>The search route (\<open>action == 'search'\<close>).\<close>

definition search_route :: "env \<Rightarrow> (string \<rightharpoonup> string) \<Rightarrow> py_error + response \<times> call list" where
  "search_route w q =
     (let search_query = param q ''q'' []
      in if search_query = []
         then Inr (\<lparr>statusCode = 400, headers = json_headers,
                    body = ErrorBody SearchQueryRequired\<rparr>, [])
         else try_bind (search_ticker w search_query) (\<lambda>results.
                Inr (\<lparr>statusCode = 200, headers = cached_headers,
                      body = SearchBody results search_query (now_jst w @ '' JST'')\<rparr>,
                     [SearchCall search_query])))"

text \<open>The single-ticker route (\<open>action == 'get_stock'\<close>).\<close>

definition get_stock_route :: "env \<Rightarrow> (string \<rightharpoonup> string) \<Rightarrow> py_error + response \<times> call list" where
  "get_stock_route w q =
     (let t = param q ''ticker'' []; interval = param q ''interval'' ''1d''
      in if interval \<notin> set valid_intervals then Inr (invalid_interval_response, [])
         else if t = []
         then Inr (\<lparr>statusCode = 400, headers = json_headers,
                    body = ErrorBody TickerRequired\<rparr>, [])
         else
           (let t = normalize_ticker t
            in try_bind (get_stock_price_yfinance_v8 w t interval) (\<lambda>fetched.
                 case fetched of
                   Some sd \<Rightarrow>
                     Inr (\<lparr>statusCode = 200, headers = cached_headers,
                           body = StockBody (with_name sd (short_name sd) t)
                                    (now_jst w @ '' JST'')\<rparr>,
                          [FetchCall t interval])
                 | None \<Rightarrow>
                     Inr (\<lparr>statusCode = 404, headers = json_headers,
                           body = ErrorBody (NoData t)\<rparr>,
                          [FetchCall t interval]))))"

text \<open>
  \<open>result\<close> before the loop of the default route; \<open>n\<close> is \<open>len(TICKERS)\<close>:
  \<^verbatim>\<open>
  result = {"updated_at": now_jst.isoformat(),
            "updated_at_jst": now_jst.strftime('%Y-%m-%d %H:%M:%S JST'),
            "timezone": "Asia/Tokyo (UTC+9)", "stocks": {},
            "summary": {"total_tickers": len(TICKERS), "successful": 0,
                        "failed": 0, "failed_tickers": []}}
  \<close>
\<close>

definition initial_result :: "env \<Rightarrow> nat \<Rightarrow> batch_result" where
  "initial_result w n =
     \<lparr>updated_at = now_iso w, updated_at_jst = now_jst w @ '' JST'',
      timezone = ''Asia/Tokyo (UTC+9)'', stocks = [],
      summary = \<lparr>total_tickers = n, successful = 0, failed = 0, failed_tickers = []\<rparr>\<rparr>"

text \<open>The default route: several tickers.\<close>

definition batch_route :: "env \<Rightarrow> (string \<rightharpoonup> string) \<Rightarrow> py_error + response \<times> call list" where
  "batch_route w q =
     (let tickers_param = param q ''tickers'' []; interval = param q ''interval'' ''1d''
      in if interval \<notin> set valid_intervals then Inr (invalid_interval_response, [])
         else
           (let TICKERS = batch_tickers tickers_param;
                result = initial_result w (length TICKERS)
            in try_bind (batch_loop w interval TICKERS (result, [])) (\<lambda>(result, calls).
                 Inr (\<lparr>statusCode = (if successful (summary result) > 0 then 200 else 500),
                       headers =
                         dict_set (dict_set (dict_set cached_headers
                           ''X-Request-Time-JST'' (now_jst w))
                           ''X-Success-Count'' (str_nat (successful (summary result))))
                           ''X-Failed-Count'' (str_nat (failed (summary result))),
                       body = BatchBody result\<rparr>, calls))))"

definition lambda_handler :: "env \<Rightarrow> event \<Rightarrow> py_error + response \<times> call list" where
  "lambda_handler w ev =
     (if http_method ev = Some ''OPTIONS''
      then Inr (\<lparr>statusCode = 200, headers = cors_headers, body = EmptyBody\<rparr>, [])
      else
        (let q = query_params ev; action = param q ''action'' ''get_stocks''
         in if action = ''search'' then search_route w q
            else if action = ''get_stock'' then get_stock_route w q
            else batch_route w q))"

section \<open>Batch Offline Fetcher: \<open>fetch_data\<close> (scripts/fetch_prices.py)\<close>

text \<open>
  The library: \<open>yf_Ticker t\<close> is the constructor call \<open>yf.Ticker(t)\<close>, which may raise;
  \<open>yf_history t k\<close> is what the \<open>k\<close>-th call (from 0) of \<open>stock.history(period="1y")\<close>
  does: it raises, or returns a frame, given as the list of its rows: the index already
  formatted by \<open>strftime('%Y-%m-%d')\<close> and the \<open>Close\<close> column, a float.
\<close>

record yf_env =
  yf_Ticker :: "string \<Rightarrow> py_error + unit"
  yf_history :: "string \<Rightarrow> nat \<Rightarrow> py_error + (string \<times> pyfloat) list"

definition TICKERS :: "(string \<times> string) list" where
  "TICKERS =
     [(''7203.T'', ''Toyota Jidosha''), (''6758.T'', ''Sony Group''),
      (''9984.T'', ''SoftBank Group''), (''6861.T'', ''Keyence''),
      (''8306.T'', ''Mitsubishi UFJ'')]"

text \<open>
  \<^verbatim>\<open>
  hist = None
  for attempt in range(3):
      try:
          hist = stock.history(period="1y")
          if not hist.empty:
              break
      except Exception as e:
          print(...); time.sleep(2)
  \<close>
\<close>

fun retry_history ::
  "(nat \<Rightarrow> py_error + (string \<times> pyfloat) list) \<Rightarrow> nat list \<Rightarrow> (string \<times> pyfloat) list option
     \<Rightarrow> (string \<times> pyfloat) list option" where
  "retry_history h [] hist = hist"
| "retry_history h (attempt # rest) hist =
     (case h attempt of
        Inl e \<Rightarrow> retry_history h rest hist
      | Inr frame \<Rightarrow> if frame \<noteq> [] then Some frame else retry_history h rest (Some frame))"

text \<open>
  \<^verbatim>\<open>
  for index, row in hist.iterrows():
      if not row['Close'] or row['Close'] != row['Close']:
          continue
      chart_data.append({"time": index.strftime('%Y-%m-%d'), "value": float(row['Close'])})
  \<close>
  \<open>not x\<close> holds of the float zero; \<open>x != x\<close> holds of NaN only.
\<close>

fun row_skipped :: "pyfloat \<Rightarrow> bool" where
  "row_skipped (Fin c) = (c = 0)"
| "row_skipped NaN = True"

definition offline_chart_data :: "(string \<times> pyfloat) list \<Rightarrow> price_point list" where
  "offline_chart_data rows =
     map (\<lambda>(d, c). \<lparr>p_time = d, p_value = c\<rparr>) (filter (\<lambda>(d, c). \<not> row_skipped c) rows)"

text \<open>An entry of \<open>result["stocks"]\<close> of the offline fetcher.\<close>

record offline_entry = stats +
  o_name :: string
  o_ticker :: string
  o_data :: "price_point list"

text \<open>
  The body of the outer \<open>try\<close> for one ticker. \<open>Inr None\<close> is one of the two
  \<open>failed_tickers.append(ticker); continue\<close> exits, \<open>Inl e\<close> an exception for the handler
  \<open>except Exception\<close>, which appends to \<open>failed_tickers\<close> as well.
\<close>

definition offline_ticker :: "yf_env \<Rightarrow> string \<Rightarrow> string \<Rightarrow> py_error + offline_entry option" where
  "offline_ticker y t nm =
     try_bind (yf_Ticker y t) (\<lambda>stock.
       case retry_history (yf_history y t) [0..<3] None of
         None \<Rightarrow> Inr None
       | Some hist \<Rightarrow>
           if hist = [] then Inr None
           else
             (let chart_data = offline_chart_data hist
              in if chart_data = [] then Inr None
                 else try_bind (offline_stats (map p_value chart_data)) (\<lambda>st.
                        Inr (Some \<lparr>current_price = current_price st, year_high = year_high st,
                                   year_low = year_low st,
                                   year_change_pct = year_change_pct st,
                                   data_points = data_points st,
                                   o_name = nm, o_ticker = t, o_data = chart_data\<rparr>))))"

record offline_result =
  o_updated_at :: string
  o_stocks :: "(string \<times> offline_entry) list"
  o_summary :: batch_summary

text \<open>The loop over \<open>TICKERS.items()\<close>; the state is \<open>result["stocks"]\<close> and \<open>failed_tickers\<close>.\<close>

fun offline_loop ::
  "yf_env \<Rightarrow> (string \<times> string) list \<Rightarrow> (string \<times> offline_entry) list \<times> string list
     \<Rightarrow> (string \<times> offline_entry) list \<times> string list" where
  "offline_loop y [] st = st"
| "offline_loop y ((t, nm) # rest) (stocks_so_far, failed_so_far) =
     offline_loop y rest
       (case offline_ticker y t nm of
          Inr (Some entry) \<Rightarrow> (dict_set stocks_so_far t entry, failed_so_far)
        | Inr None \<Rightarrow> (stocks_so_far, failed_so_far @ [t])
        | Inl e \<Rightarrow> (stocks_so_far, failed_so_far @ [t]))"

text \<open>
  \<open>fetch_data\<close> on a ticker dict: the document it writes and the value it returns,
  \<open>len(result["stocks"]) > 0\<close>. \<open>now\<close> is \<open>datetime.now().isoformat()\<close>. Writing the file
  is taken to succeed.
\<close>

definition fetch_data_on ::
  "(string \<times> string) list \<Rightarrow> yf_env \<Rightarrow> string \<Rightarrow> offline_result \<times> bool" where
  "fetch_data_on tickers y now =
     (case offline_loop y tickers ([], []) of
        (stocks_done, failed_done) \<Rightarrow>
          (\<lparr>o_updated_at = now, o_stocks = stocks_done,
            o_summary = \<lparr>total_tickers = length tickers, successful = length stocks_done,
                         failed = length failed_done, failed_tickers = failed_done\<rparr>\<rparr>,
           length stocks_done > 0))"

definition fetch_data :: "yf_env \<Rightarrow> string \<Rightarrow> offline_result \<times> bool" where
  "fetch_data y now = fetch_data_on TICKERS y now"

text \<open>\<^verbatim>\<open>success = fetch_data(); exit(0 if success else 1)\<close>\<close>

definition main_exit_code :: "yf_env \<Rightarrow> string \<Rightarrow> nat" where
  "main_exit_code y now = (if snd (fetch_data y now) then 0 else 1)"

section \<open>Example inputs\<close>

text \<open>
  A provider document of the expected shape around a timestamp array and a close-price
  array, and a world whose chart endpoint answers with a given document and whose search
  endpoint answers with another. Dates are formatted as \<open>day\<close> or \<open>minute\<close>.
\<close>

definition provider_doc :: "json list \<Rightarrow> json list \<Rightarrow> json" where
  "provider_doc ts ps =
     JObj [(''chart'', JObj [(''result'', JArr [JObj
       [(''meta'', JObj [(''shortName'', JStr ''TOYOTA MOTOR CORP'')]),
        (''timestamp'', JArr ts),
        (''indicators'', JObj [(''quote'', JArr [JObj [(''close'', JArr ps)]])])]])])]"

text \<open>
  A response with the members a real one has besides: the other price columns, the
  adjusted closes, more metadata and the \<open>error\<close> member.
\<close>

definition full_doc :: "json list \<Rightarrow> json list \<Rightarrow> json" where
  "full_doc ts ps =
     JObj [(''chart'', JObj
       [(''result'', JArr [JObj
          [(''meta'', JObj [(''currency'', JStr ''JPY''), (''symbol'', JStr ''7203.T''),
                            (''shortName'', JStr ''TOYOTA MOTOR CORP''),
                            (''regularMarketPrice'', JNum (Fin 2500))]),
           (''timestamp'', JArr ts),
           (''indicators'', JObj
              [(''quote'', JArr [JObj
                  [(''open'', JArr (map (\<lambda>p. JNum (Fin 1)) ps)),
                   (''high'', JArr (map (\<lambda>p. JNum (Fin 3)) ps)),
                   (''volume'', JArr (map (\<lambda>p. JNum (Fin 1000)) ps)),
                   (''close'', JArr ps),
                   (''low'', JArr (map (\<lambda>p. JNum (Fin 1)) ps))]]),
               (''adjclose'', JArr [JObj [(''adjclose'', JArr ps)]])])]]),
        (''error'', JNull)])]"

definition example_world :: "(py_error + json) \<Rightarrow> (py_error + json) \<Rightarrow> env" where
  "example_world chart_answer search_answer =
     \<lparr>chart_api = (\<lambda>t i. chart_answer), search_api = (\<lambda>q. search_answer),
      strftime_jst = (\<lambda>intraday ts. Inr (if intraday then ''minute'' else ''day'')),
      float_of_string = (\<lambda>s. Inl ValueError),
      now_jst = ''2025-01-06 09:00:00'', now_iso = ''2025-01-06T09:00:00+09:00''\<rparr>"

definition example_event :: "(string \<times> string) list \<Rightarrow> event" where
  "example_event kvs =
     \<lparr>httpMethod = Some ''GET'', requestContext_http_method = None,
      queryStringParameters = Some (map_of kvs)\<rparr>"

definition nums :: "real list \<Rightarrow> json list" where
  "nums rs = map (\<lambda>r. JNum (Fin r)) rs"

text \<open>The document of the documented example: five closes 100, 105, 95, 110, 108.\<close>

definition example_chart :: json where
  "example_chart = provider_doc (nums [1, 2, 3, 4, 5]) (nums [100, 105, 95, 110, 108])"

text \<open>A search answer with four entries, one of them of another market.\<close>

definition example_search :: json where
  "example_search =
     JObj [(''quotes'', JArr
       [JObj [(''symbol'', JStr ''7203.T''), (''shortname'', JStr ''TOYOTA''),
              (''longname'', JStr ''Toyota Motor''), (''typeDisp'', JStr ''Equity''),
              (''exchange'', JStr ''JPX'')],
        JObj [(''symbol'', JStr ''TM''), (''shortname'', JStr ''Toyota ADR'')],
        JObj [(''symbol'', JStr ''6758.T''), (''longname'', JStr ''Sony Group'')],
        JObj [(''symbol'', JStr ''9984.T'')]])]"

text \<open>
  A world whose chart endpoint answers with the example document for the tickers of a
  list and with status 404 for any other, and a library that returns a frame of three
  rows for the tickers of a list and raises for any other.
\<close>

definition selective_world :: "string list \<Rightarrow> env" where
  "selective_world good =
     (example_world (Inl URLError) (Inl URLError))
       \<lparr>chart_api := (\<lambda>t i. if t \<in> set good then Inr example_chart else Inl (HTTPError 404))\<rparr>"

definition selective_library :: "string list \<Rightarrow> yf_env" where
  "selective_library good =
     \<lparr>yf_Ticker = (\<lambda>t. Inr ()),
      yf_history = (\<lambda>t k. if t \<in> set good
                           then Inr [(''2025-01-06'', Fin 200), (''2025-01-07'', NaN),
                                     (''2025-01-08'', Fin 210)]
                           else Inl URLError)\<rparr>"


section \<open>Notions the properties are stated with\<close>

text \<open>
  The search result as the specification words it. \<open>field_of quote k d\<close> is the field
  \<open>k\<close> of an upstream entry, or \<open>d\<close> when the entry has no such field. An entry is kept
  when its symbol is a string that ends with \<open>.T\<close>; a kept entry has the short name,
  else the long name, else the symbol as its name, the type or \<open>Stock\<close>, and the exchange
  or the empty string.
\<close>

definition field_of :: "json \<Rightarrow> string \<Rightarrow> json \<Rightarrow> json" where
  "field_of quote k d =
     (case quote of
        JObj kvs \<Rightarrow> (case map_of kvs k of Some v \<Rightarrow> v | None \<Rightarrow> d)
      | _ \<Rightarrow> d)"

definition spec_symbol_kept :: "json \<Rightarrow> bool" where
  "spec_symbol_kept quote =
     (case field_of quote ''symbol'' (JStr []) of JStr s \<Rightarrow> endswith s ''.T'' | _ \<Rightarrow> False)"

definition spec_search_entry :: "json \<Rightarrow> search_result" where
  "spec_search_entry quote =
     \<lparr>sr_symbol = field_of quote ''symbol'' (JStr []),
      sr_name = field_of quote ''shortname''
                  (field_of quote ''longname'' (field_of quote ''symbol'' (JStr []))),
      sr_type = field_of quote ''typeDisp'' (JStr ''Stock''),
      sr_exchange = field_of quote ''exchange'' (JStr [])\<rparr>"

text \<open>An upstream entry the loop handles without an exception: a dict whose symbol, if
  it has one, is a string.\<close>

definition well_formed_quote :: "json \<Rightarrow> bool" where
  "well_formed_quote quote =
     (case quote of
        JObj kvs \<Rightarrow> (case map_of kvs ''symbol'' of
                       None \<Rightarrow> True | Some (JStr s) \<Rightarrow> True | Some _ \<Rightarrow> False)
      | _ \<Rightarrow> False)"

text \<open>
  The percent change as the specification words it,
  \<open>round(((last - first) / first) * 100, 2)\<close>, evaluated as Python evaluates it on floats.
\<close>

definition year_change :: "pyfloat \<Rightarrow> pyfloat \<Rightarrow> py_error + pyfloat" where
  "year_change first_price last_price =
     (case py_div (py_sub last_price first_price) first_price of
        Inl e \<Rightarrow> Inl e
      | Inr q \<Rightarrow> Inr (py_round2 (py_mul q (Fin 100))))"

text \<open>
  A provider response of the documented shape, whatever other members its objects
  have: \<open>chart.result\<close> is a non-empty array whose first element is an object; that
  object's \<open>meta\<close>, if any, is an object, its \<open>timestamp\<close>, if any, an array, and its
  \<open>indicators.quote[0].close\<close>, if any, an array. \<open>spec_series\<close> is the pair of the
  timestamp array and the close-price array of such a response (an absent array is
  empty), and \<open>spec_short_name\<close> its display name, the ticker when \<open>meta\<close> has none.
\<close>

definition as_obj :: "json \<Rightarrow> (string \<times> json) list option" where
  "as_obj x = (case x of JObj kvs \<Rightarrow> Some kvs | _ \<Rightarrow> None)"

definition as_arr :: "json \<Rightarrow> json list option" where
  "as_arr x = (case x of JArr xs \<Rightarrow> Some xs | _ \<Rightarrow> None)"

definition first_obj :: "json list \<Rightarrow> (string \<times> json) list option" where
  "first_obj xs = (case xs of [] \<Rightarrow> None | x # rest \<Rightarrow> as_obj x)"

definition spec_quote :: "json \<Rightarrow> (string \<times> json) list option" where
  "spec_quote doc =
     Option.bind (as_obj doc) (\<lambda>d.
     Option.bind (map_of d ''chart'') (\<lambda>chart.
     Option.bind (as_obj chart) (\<lambda>c.
     Option.bind (map_of c ''result'') (\<lambda>result.
     Option.bind (as_arr result) first_obj))))"

definition spec_series :: "json \<Rightarrow> (json list \<times> json list) option" where
  "spec_series doc =
     Option.bind (spec_quote doc) (\<lambda>q.
     Option.bind (as_obj (field_of (JObj q) ''meta'' (JObj []))) (\<lambda>meta.
     Option.bind (as_arr (field_of (JObj q) ''timestamp'' (JArr []))) (\<lambda>ts.
     Option.bind (as_obj (field_of (JObj q) ''indicators'' (JObj []))) (\<lambda>ind.
     Option.bind (as_arr (field_of (JObj ind) ''quote'' (JArr [JObj []]))) (\<lambda>qs.
     Option.bind (first_obj qs) (\<lambda>q0.
     Option.bind (as_arr (field_of (JObj q0) ''close'' (JArr []))) (\<lambda>ps.
       Some (ts, ps))))))))"

definition spec_short_name :: "string \<Rightarrow> json \<Rightarrow> json" where
  "spec_short_name t doc =
     (case spec_quote doc of
        None \<Rightarrow> JStr t
      | Some q \<Rightarrow> field_of (field_of (JObj q) ''meta'' (JObj [])) ''shortName'' (JStr t))"



text \<open>The interval and the tickers a request of the default route asks for.\<close>

definition requested_interval :: "event \<Rightarrow> string" where
  "requested_interval ev = param (query_params ev) ''interval'' ''1d''"

definition requested_tickers :: "event \<Rightarrow> string list" where
  "requested_tickers ev = map fst (batch_tickers (param (query_params ev) ''tickers'' []))"

text \<open>A ticker succeeds when the fetcher returns a dict for it, and fails when it returns None.\<close>

definition fetch_succeeds :: "env \<Rightarrow> string \<Rightarrow> string \<Rightarrow> bool" where
  "fetch_succeeds w interval t =
     (case get_stock_price_yfinance_v8 w t interval of Inr (Some sd) \<Rightarrow> True | _ \<Rightarrow> False)"

definition offline_succeeds :: "yf_env \<Rightarrow> string \<times> string \<Rightarrow> bool" where
  "offline_succeeds y tn =
     (case offline_ticker y (fst tn) (snd tn) of Inr (Some entry) \<Rightarrow> True | _ \<Rightarrow> False)"

text \<open>The tickers a list of calls fetched.\<close>

fun fetched_tickers :: "call list \<Rightarrow> string list" where
  "fetched_tickers [] = []"
| "fetched_tickers (FetchCall t i # cs) = t # fetched_tickers cs"
| "fetched_tickers (SearchCall q # cs) = fetched_tickers cs"

text \<open>
  A header dict carries the full CORS set when it holds the four CORS headers with their
  values, and the JSON content type when it maps \<open>Content-Type\<close> to
  \<open>application/json; charset=utf-8\<close>.
\<close>

definition has_cors :: "(string \<times> string) list \<Rightarrow> bool" where
  "has_cors hs =
     (map_of hs ''Access-Control-Allow-Origin'' = Some ''*''
      \<and> map_of hs ''Access-Control-Allow-Headers'' =
          Some ''Content-Type,X-Amz-Date,Authorization,X-Api-Key,X-Amz-Security-Token''
      \<and> map_of hs ''Access-Control-Allow-Methods'' = Some ''GET,OPTIONS,POST''
      \<and> map_of hs ''Access-Control-Max-Age'' = Some ''86400'')"

definition has_json_content_type :: "(string \<times> string) list \<Rightarrow> bool" where
  "has_json_content_type hs =
     (map_of hs ''Content-Type'' = Some ''application/json; charset=utf-8'')"

section \<open>Properties\<close>

subsection \<open>Helper facts\<close>

lemma try_bind_simps [simp]:
  "try_bind (Inl e) f = Inl e" "try_bind (Inr x) f = f x"
  by (simp_all add: try_bind_def)

lemma endswith_append: "endswith (t @ s) s"
  by (simp add: endswith_def)

lemma normalize_ticker_endswith: "endswith (normalize_ticker t) ''.T''"
  using endswith_append[of t "''.T''"] by (simp add: normalize_ticker_def)

lemma normalize_ticker_idem: "normalize_ticker (normalize_ticker t) = normalize_ticker t"
  using normalize_ticker_endswith[of t] by (simp add: normalize_ticker_def)

lemma rnd53_zero [simp]: "rnd53 0 = 0"
  by (simp add: rnd53_def)

lemma round2_zero [simp]: "round2 0 = 0"
  by (simp add: round2_def round_half_even_def)

text \<open>The definitions a concrete float computation unfolds.\<close>

lemmas float_defs =
  rnd53_def float_exponent_def pow2_def round_half_even_def round2_def Let_def

lemma year_change_fin:
  "f \<noteq> 0 \<Longrightarrow>
     year_change (Fin f) (Fin l) =
       Inr (Fin (rnd53 (round2 (rnd53 (rnd53 (rnd53 (l - f) / f) * 100)))))"
  by (simp add: year_change_def)

lemma year_change_same: "r \<noteq> 0 \<Longrightarrow> year_change (Fin r) (Fin r) = Inr (Fin 0)"
  by (simp add: year_change_def)

lemma lambda_stats_pct:
  assumes "lambda_stats vp = Inr s"
  shows "(length vp \<le> 1 \<longrightarrow> year_change_pct s = Fin 0)
       \<and> (1 < length vp \<longrightarrow> year_change (hd vp) (last vp) = Inr (year_change_pct s))"
proof (cases vp)
  case Nil
  with assms show ?thesis by (simp add: lambda_stats_def)
next
  case (Cons r rest)
  show ?thesis
  proof (cases "rest = []")
    case True
    with Cons assms show ?thesis by (auto simp: lambda_stats_def)
  next
    case False
    with Cons assms show ?thesis
      by (auto simp: lambda_stats_def year_change_def split: if_splits sum.splits)
  qed
qed

lemma offline_stats_pct:
  assumes "offline_stats vp = Inr s"
  shows "year_change (hd vp) (last vp) = Inr (year_change_pct s)"
proof (cases vp)
  case Nil
  with assms show ?thesis by (simp add: offline_stats_def)
next
  case (Cons r rest)
  with assms show ?thesis
    by (auto simp: offline_stats_def year_change_def split: if_splits sum.splits)
qed

text \<open>What the offline fetcher keeps are numbers other than zero.\<close>

lemma offline_values_fin:
  "\<exists>rs. map p_value (offline_chart_data rows) = map Fin rs \<and> 0 \<notin> set rs"
proof (induction rows)
  case Nil
  show ?case by (simp add: offline_chart_data_def)
next
  case (Cons row rows)
  then obtain rs where rs: "map p_value (offline_chart_data rows) = map Fin rs" "0 \<notin> set rs"
    by blast
  obtain d c where row: "row = (d, c)" by (cases row)
  show ?case
  proof (cases c)
    case (Fin x)
    show ?thesis
    proof (cases "x = 0")
      case True
      with Fin row rs show ?thesis by (auto simp: offline_chart_data_def)
    next
      case False
      with Fin row rs
      have "map p_value (offline_chart_data (row # rows)) = map Fin (x # rs)
            \<and> 0 \<notin> set (x # rs)"
        by (auto simp: offline_chart_data_def)
      then show ?thesis by blast
    qed
  next
    case NaN
    with row rs show ?thesis by (auto simp: offline_chart_data_def)
  qed
qed

lemma offline_single_pct:
  assumes "offline_stats (map p_value (offline_chart_data rows)) = Inr s"
      and "length (offline_chart_data rows) \<le> 1"
  shows "year_change_pct s = Fin 0"
proof -
  obtain rs where rs: "map p_value (offline_chart_data rows) = map Fin rs" "0 \<notin> set rs"
    using offline_values_fin by blast
  from assms(2) have "length (map Fin rs) \<le> 1"
    using rs(1) by (metis length_map)
  then have "rs = [] \<or> (\<exists>r. rs = [r])"
    by (cases rs) auto
  then show ?thesis
  proof
    assume "rs = []"
    with assms(1) rs show ?thesis by (simp add: offline_stats_def)
  next
    assume "\<exists>r. rs = [r]"
    then obtain r where r: "rs = [r]" by blast
    with rs(2) have "r \<noteq> 0" by simp
    with offline_stats_pct[OF assms(1)] r rs(1) show ?thesis
      by (simp add: year_change_same)
  qed
qed

lemma example_stats:
  "lambda_stats (map Fin [100, 105, 95, 110, 108]) =
     Inr \<lparr>current_price = Fin 108, year_high = Fin 110, year_low = Fin 95,
          year_change_pct = Fin 8, data_points = 5\<rparr>"
  by (simp add: lambda_stats_def float_defs)

lemma example_boundaries:
  "year_change (Fin 20000) (Fin 20001) = Inr (Fin (rnd53 (1 / 100)))"
  "year_change (Fin 40000) (Fin 40006) = Inr (Fin (rnd53 (1 / 100)))"
  "rnd53 (1 / 100) = 5764607523034235 / 576460752303423488"
  by (simp_all add: year_change_def float_defs)

subsection \<open>C1: the percent change\<close>

text \<open>
  C1. Whenever a fetch produces a summary from its sequence of valid prices, the percent
  change is 0 for a sequence of at most one price and the value of the Python expression
  \<open>round(((last - first) / first) * 100, 2)\<close> otherwise: in the router's fetcher on any
  sequence, in the offline fetcher on the prices it keeps from any frame. On two numbers
  with a first price other than zero that value is computed in doubles, each operation
  rounded: for the closes 20000 and 20001, and for 40000 and 40006, it is the double
  nearest to 0.01. For the closes 100, 105, 95, 110, 108 the router's fetcher returns
  current price 108, high 110, low 95, change 8.0 and 5 data points.
\<close>

theorem year_change_pct_formula:
  "(lambda_stats vp = Inr s \<longrightarrow>
      (length vp \<le> 1 \<longrightarrow> year_change_pct s = Fin 0)
      \<and> (1 < length vp \<longrightarrow> year_change (hd vp) (last vp) = Inr (year_change_pct s)))
   \<and> (offline_stats (map p_value (offline_chart_data rows)) = Inr s' \<longrightarrow>
        (length (offline_chart_data rows) \<le> 1 \<longrightarrow> year_change_pct s' = Fin 0)
        \<and> (1 < length (offline_chart_data rows) \<longrightarrow>
             year_change (hd (map p_value (offline_chart_data rows)))
               (last (map p_value (offline_chart_data rows))) = Inr (year_change_pct s')))
   \<and> (f \<noteq> 0 \<longrightarrow>
        year_change (Fin f) (Fin l) =
          Inr (Fin (rnd53 (round2 (rnd53 (rnd53 (rnd53 (l - f) / f) * 100))))))
   \<and> year_change (Fin 20000) (Fin 20001) = Inr (Fin (5764607523034235 / 576460752303423488))
   \<and> year_change (Fin 40000) (Fin 40006) = Inr (Fin (5764607523034235 / 576460752303423488))
   \<and> lambda_stats (map Fin [100, 105, 95, 110, 108]) =
        Inr \<lparr>current_price = Fin 108, year_high = Fin 110, year_low = Fin 95,
             year_change_pct = Fin 8, data_points = 5\<rparr>"
proof (intro conjI impI)
  assume a: "lambda_stats vp = Inr s"
  {
    assume "length vp \<le> 1"
    with lambda_stats_pct[OF a] show "year_change_pct s = Fin 0" by blast
  }
  {
    assume "1 < length vp"
    with lambda_stats_pct[OF a]
    show "year_change (hd vp) (last vp) = Inr (year_change_pct s)" by blast
  }
next
  assume a: "offline_stats (map p_value (offline_chart_data rows)) = Inr s'"
  {
    assume "length (offline_chart_data rows) \<le> 1"
    with a show "year_change_pct s' = Fin 0" by (rule offline_single_pct)
  }
  {
    assume "1 < length (offline_chart_data rows)"
    from offline_stats_pct[OF a]
    show "year_change (hd (map p_value (offline_chart_data rows)))
               (last (map p_value (offline_chart_data rows))) = Inr (year_change_pct s')" .
  }
next
  assume "f \<noteq> 0"
  then show "year_change (Fin f) (Fin l) =
          Inr (Fin (rnd53 (round2 (rnd53 (rnd53 (rnd53 (l - f) / f) * 100)))))"
    by (rule year_change_fin)
next
  show "year_change (Fin 20000) (Fin 20001) = Inr (Fin (5764607523034235 / 576460752303423488))"
    using example_boundaries by simp
  show "year_change (Fin 40000) (Fin 40006) = Inr (Fin (5764607523034235 / 576460752303423488))"
    using example_boundaries by simp
  show "lambda_stats (map Fin [100, 105, 95, 110, 108]) =
        Inr \<lparr>current_price = Fin 108, year_high = Fin 110, year_low = Fin 95,
             year_change_pct = Fin 8, data_points = 5\<rparr>"
    by (rule example_stats)
qed

theorem year_change_pct_formula_witness:
  "lambda_stats [Fin 200, Fin 210] =
     Inr \<lparr>current_price = Fin 210, year_high = Fin 210, year_low = Fin 200,
          year_change_pct = Fin 5, data_points = 2\<rparr>
   \<and> year_change (Fin 200) (Fin 210) = Inr (Fin 5)
   \<and> offline_stats (map p_value (offline_chart_data
         [(''2025-01-06'', Fin 200), (''2025-01-07'', NaN), (''2025-01-08'', Fin 0),
          (''2025-01-09'', Fin 210)])) =
       Inr \<lparr>current_price = Fin 210, year_high = Fin 210, year_low = Fin 200,
            year_change_pct = Fin 5, data_points = 2\<rparr>
   \<and> lambda_stats [Fin 300] =
     Inr \<lparr>current_price = Fin 300, year_high = Fin 300, year_low = Fin 300,
          year_change_pct = Fin 0, data_points = 1\<rparr>
   \<and> offline_stats (map p_value (offline_chart_data [(''2025-01-06'', Fin 300)])) =
     Inr \<lparr>current_price = Fin 300, year_high = Fin 300, year_low = Fin 300,
          year_change_pct = Fin 0, data_points = 1\<rparr>"
proof -
  let ?s2 = "\<lparr>current_price = Fin 210, year_high = Fin 210, year_low = Fin 200,
          year_change_pct = Fin 5, data_points = 2\<rparr>"
  let ?s1 = "\<lparr>current_price = Fin 300, year_high = Fin 300, year_low = Fin 300,
          year_change_pct = Fin 0, data_points = 1\<rparr>"
  let ?rows2 = "[(''2025-01-06'', Fin 200), (''2025-01-07'', NaN), (''2025-01-08'', Fin 0),
          (''2025-01-09'', Fin 210)]"
  let ?rows1 = "[(''2025-01-06'', Fin 300)]"
  have a2: "lambda_stats [Fin 200, Fin 210] = Inr ?s2"
    by (simp add: lambda_stats_def float_defs)
  have b2: "offline_stats (map p_value (offline_chart_data ?rows2)) = Inr ?s2"
    by (simp add: offline_stats_def offline_chart_data_def float_defs)
  have a1: "lambda_stats [Fin 300] = Inr ?s1"
    by (simp add: lambda_stats_def)
  have b1: "offline_stats (map p_value (offline_chart_data ?rows1)) = Inr ?s1"
    by (simp add: offline_stats_def offline_chart_data_def)
  have l2: "1 < length [Fin 200, Fin 210]" "1 < length (offline_chart_data ?rows2)"
    and l1: "length [Fin 300] \<le> 1" "length (offline_chart_data ?rows1) \<le> 1"
    by (simp_all add: offline_chart_data_def)
  from year_change_pct_formula[of "[Fin 200, Fin 210]" ?s2 ?rows2 ?s2 200 210] a2 b2 l2
  have c2: "year_change (hd [Fin 200, Fin 210]) (last [Fin 200, Fin 210]) =
      Inr (year_change_pct ?s2)"
    by blast
  from year_change_pct_formula[of "[Fin 300]" ?s1 ?rows1 ?s1 200 210] a1 b1 l1
  have c1: "year_change_pct ?s1 = Fin 0"
    by blast
  from a2 b2 a1 b1 c2 show ?thesis by simp
qed

subsection \<open>Helper facts about the fetchers and the batch loop\<close>

lemma fetcher_returns: "\<exists>r. get_stock_price_yfinance_v8 w t i = Inr r"
  by (auto simp: get_stock_price_yfinance_v8_def split: sum.splits py_error.splits)

lemma search_returns: "\<exists>r. search_ticker w q = Inr r"
  by (auto simp: search_ticker_def split: sum.splits)

lemma fetched_tickers_append: "fetched_tickers (xs @ ys) = fetched_tickers xs @ fetched_tickers ys"
  by (induction xs rule: fetched_tickers.induct) auto

lemma batch_loop_returns: "\<exists>r c. batch_loop w i T st = Inr (r, c)"
proof (induction T arbitrary: st)
  case Nil
  show ?case by (cases st) simp
next
  case (Cons tn T)
  obtain t nm where tn: "tn = (t, nm)" by (cases tn)
  obtain r c where st: "st = (r, c)" by (cases st)
  obtain f where f: "get_stock_price_yfinance_v8 w t i = Inr f"
    using fetcher_returns by blast
  show ?case using Cons.IH by (simp add: tn st f)
qed

lemma batch_loop_calls:
  "batch_loop w i T (r, c) = Inr (r', c') \<Longrightarrow> c' = c @ map (\<lambda>tn. FetchCall (fst tn) i) T"
proof (induction T arbitrary: r c)
  case Nil
  then show ?case by simp
next
  case (Cons tn T)
  obtain t nm where tn: "tn = (t, nm)" by (cases tn)
  obtain f where f: "get_stock_price_yfinance_v8 w t i = Inr f"
    using fetcher_returns by blast
  from Cons.prems show ?case
    by (auto simp: tn f dest: Cons.IH)
qed

lemma batch_loop_summary:
  "batch_loop w i T (r, c) = Inr (r', c') \<Longrightarrow>
     total_tickers (summary r') = total_tickers (summary r) \<and>
     successful (summary r') =
       successful (summary r) + length (filter (fetch_succeeds w i) (map fst T)) \<and>
     failed (summary r') =
       failed (summary r) + length (filter (\<lambda>t. \<not> fetch_succeeds w i t) (map fst T)) \<and>
     failed_tickers (summary r') =
       failed_tickers (summary r) @ filter (\<lambda>t. \<not> fetch_succeeds w i t) (map fst T)"
proof (induction T arbitrary: r c)
  case Nil
  then show ?case by simp
next
  case (Cons tn T)
  obtain t nm where tn: "tn = (t, nm)" by (cases tn)
  obtain f where f: "get_stock_price_yfinance_v8 w t i = Inr f"
    using fetcher_returns by blast
  show ?case
  proof (cases f)
    case None
    with f have ok: "\<not> fetch_succeeds w i t" by (simp add: fetch_succeeds_def)
    from Cons.prems show ?thesis
      by (auto simp: tn f None ok dest!: Cons.IH)
  next
    case (Some sd)
    with f have ok: "fetch_succeeds w i t" by (simp add: fetch_succeeds_def)
    from Cons.prems show ?thesis
      by (auto simp: tn f Some ok dest!: Cons.IH)
  qed
qed

lemma dict_set_keys: "fst ` set (dict_set d k v) = insert k (fst ` set d)"
  by (induction d k v rule: dict_set.induct) auto

lemma dict_set_distinct: "distinct (map fst d) \<Longrightarrow> distinct (map fst (dict_set d k v))"
proof (induction d k v rule: dict_set.induct)
  case (1 k v)
  show ?case by simp
next
  case (2 k' v' kvs k v)
  show ?case
  proof (cases "k' = k")
    case True
    with 2 show ?thesis by simp
  next
    case False
    with 2 have "distinct (map fst (dict_set kvs k v))" "k' \<notin> fst ` set kvs" by auto
    with False show ?thesis by (simp add: dict_set_keys)
  qed
qed

lemma tickers_of_list_keys:
  "fst ` set (tickers_of_list ts acc) = fst ` set acc \<union> normalize_ticker ` set ts"
  by (induction ts arbitrary: acc) (simp_all add: dict_set_keys)

lemma tickers_of_list_distinct:
  "distinct (map fst acc) \<Longrightarrow> distinct (map fst (tickers_of_list ts acc))"
  by (induction ts arbitrary: acc) (simp_all add: dict_set_distinct)

lemma default_tickers_suffix: "\<forall>t \<in> set (map fst default_tickers). endswith t ''.T''"
  by (simp add: default_tickers_def endswith_def)

subsection \<open>Helper facts about the routes of the handler\<close>

lemma map_of_dict_set: "map_of (dict_set d k v) = (map_of d)(k \<mapsto> v)"
  by (induction d k v rule: dict_set.induct) (auto simp: fun_eq_iff)

lemma cors_headers_cors: "has_cors cors_headers"
  by (simp add: has_cors_def cors_headers_def)

lemma json_headers_cors: "has_cors json_headers \<and> has_json_content_type json_headers"
  by (simp add: has_cors_def has_json_content_type_def json_headers_def cors_headers_def)

lemma cached_headers_cors: "has_cors cached_headers \<and> has_json_content_type cached_headers"
  by (simp add: has_cors_def has_json_content_type_def cached_headers_def json_headers_def cors_headers_def)

lemma batch_headers_cors:
  "has_cors (dict_set (dict_set (dict_set cached_headers ''X-Request-Time-JST'' a)
       ''X-Success-Count'' b) ''X-Failed-Count'' c)
   \<and> has_json_content_type (dict_set (dict_set (dict_set cached_headers ''X-Request-Time-JST'' a)
       ''X-Success-Count'' b) ''X-Failed-Count'' c)"
  using cached_headers_cors
  by (simp add: has_cors_def has_json_content_type_def map_of_dict_set cors_headers_def)

lemma valid_intervals_join: "join '', '' valid_intervals = ''15m, 30m, 60m, 1d, 1wk, 1mo''"
  by (simp add: valid_intervals_def)

lemma search_route_shape:
  assumes "search_route w q = Inr (resp, calls)"
  shows "has_cors (headers resp) \<and> has_json_content_type (headers resp)
         \<and> fetched_tickers calls = []"
proof -
  obtain r where r: "search_ticker w (param q ''q'' []) = Inr r"
    using search_returns by blast
  from assms show ?thesis
    using json_headers_cors cached_headers_cors
    by (auto simp: search_route_def Let_def r split: if_splits)
qed

lemma get_stock_route_shape:
  assumes "get_stock_route w q = Inr (resp, calls)"
  shows "has_cors (headers resp) \<and> has_json_content_type (headers resp)
         \<and> (calls = [] \<or> calls = [FetchCall (normalize_ticker (param q ''ticker'' []))
                                      (param q ''interval'' ''1d'')])"
proof -
  obtain f where f: "get_stock_price_yfinance_v8 w (normalize_ticker (param q ''ticker'' []))
      (param q ''interval'' ''1d'') = Inr f"
    using fetcher_returns by blast
  from assms show ?thesis
    using json_headers_cors cached_headers_cors
    by (auto simp: get_stock_route_def Let_def f invalid_interval_response_def
             split: if_splits option.splits)
qed

lemma batch_route_shape:
  assumes "batch_route w q = Inr (resp, calls)"
  shows "has_cors (headers resp) \<and> has_json_content_type (headers resp)
         \<and> (calls = [] \<or> calls = map (\<lambda>tn. FetchCall (fst tn) (param q ''interval'' ''1d''))
                                   (batch_tickers (param q ''tickers'' [])))"
proof (cases "param q ''interval'' ''1d'' \<in> set valid_intervals")
  case False
  with assms show ?thesis
    using json_headers_cors
    by (auto simp: batch_route_def Let_def invalid_interval_response_def)
next
  case True
  let ?i = "param q ''interval'' ''1d''"
  let ?T = "batch_tickers (param q ''tickers'' [])"
  let ?r0 = "initial_result w (length ?T)"
  obtain r c where rc: "batch_loop w ?i ?T (?r0, []) = Inr (r, c)"
    using batch_loop_returns by blast
  then have c: "c = map (\<lambda>tn. FetchCall (fst tn) ?i) ?T"
    using batch_loop_calls by fastforce
  from assms True rc show ?thesis
    using batch_headers_cors
    by (auto simp: batch_route_def Let_def c)
qed

lemma fetched_tickers_map: "fetched_tickers (map (\<lambda>tn. FetchCall (fst tn) i) T) = map fst T"
  by (induction T) auto

lemma batch_tickers_suffix: "t \<in> fst ` set (batch_tickers p) \<Longrightarrow> endswith t ''.T''"
  using default_tickers_suffix normalize_ticker_endswith
  by (auto simp: batch_tickers_def tickers_of_list_keys split: if_splits)

lemma handler_route:
  "lambda_handler w ev = Inr (resp, calls) \<Longrightarrow>
     (http_method ev = Some ''OPTIONS'' \<and> resp = \<lparr>statusCode = 200, headers = cors_headers, body = EmptyBody\<rparr> \<and> calls = [])
   \<or> (http_method ev \<noteq> Some ''OPTIONS'' \<and> 
       (search_route w (query_params ev) = Inr (resp, calls) 
        \<or> get_stock_route w (query_params ev) = Inr (resp, calls)
        \<or> batch_route w (query_params ev) = Inr (resp, calls)))"
  by (auto simp: lambda_handler_def Let_def split: if_splits)

lemma handler_fetches_normalized:
  assumes "lambda_handler w ev = Inr (resp, calls)" "t \<in> set (fetched_tickers calls)"
  shows "endswith t ''.T''"
  using handler_route[OF assms(1)] assms(2)
  using search_route_shape[of w "query_params ev" resp calls]
        get_stock_route_shape[of w "query_params ev" resp calls]
        batch_route_shape[of w "query_params ev" resp calls]
        normalize_ticker_endswith batch_tickers_suffix
  by (auto simp: fetched_tickers_map)

lemma batch_route_valid:
  assumes "param q ''interval'' ''1d'' \<in> set valid_intervals"
  shows "\<exists>r. batch_loop w (param q ''interval'' ''1d'') (batch_tickers (param q ''tickers'' []))
               (initial_result w (length (batch_tickers (param q ''tickers'' []))), []) =
             Inr (r, map (\<lambda>tn. FetchCall (fst tn) (param q ''interval'' ''1d''))
                       (batch_tickers (param q ''tickers'' [])))
           \<and> batch_route w q =
               Inr (\<lparr>statusCode = (if successful (summary r) > 0 then 200 else 500),
                     headers =
                       dict_set (dict_set (dict_set cached_headers
                         ''X-Request-Time-JST'' (now_jst w))
                         ''X-Success-Count'' (str_nat (successful (summary r))))
                         ''X-Failed-Count'' (str_nat (failed (summary r))),
                     body = BatchBody r\<rparr>,
                    map (\<lambda>tn. FetchCall (fst tn) (param q ''interval'' ''1d''))
                       (batch_tickers (param q ''tickers'' [])))"
proof -
  let ?i = "param q ''interval'' ''1d''"
  let ?T = "batch_tickers (param q ''tickers'' [])"
  obtain r c where rc: "batch_loop w ?i ?T (initial_result w (length ?T), []) = Inr (r, c)"
    using batch_loop_returns by blast
  then have c: "c = map (\<lambda>tn. FetchCall (fst tn) ?i) ?T"
    using batch_loop_calls by fastforce
  from assms rc c show ?thesis
    by (simp add: batch_route_def Let_def)
qed

lemma get_stock_route_valid:
  assumes "param q ''interval'' ''1d'' \<in> set valid_intervals"
  shows "\<exists>resp calls. get_stock_route w q = Inr (resp, calls)
           \<and> (\<forall>l. body resp \<noteq> ErrorBody (InvalidInterval l))
           \<and> (\<forall>c \<in> set calls. \<exists>t. c = FetchCall t (param q ''interval'' ''1d''))"
proof -
  obtain f where f: "get_stock_price_yfinance_v8 w (normalize_ticker (param q ''ticker'' []))
      (param q ''interval'' ''1d'') = Inr f"
    using fetcher_returns by blast
  from assms show ?thesis
    by (cases f) (simp_all add: get_stock_route_def Let_def f)
qed

lemma search_route_returns: "\<exists>resp calls. search_route w q = Inr (resp, calls)"
proof -
  obtain r where r: "search_ticker w (param q ''q'' []) = Inr r"
    using search_returns by blast
  show ?thesis by (simp add: search_route_def Let_def r)
qed

lemma get_stock_route_returns: "\<exists>resp calls. get_stock_route w q = Inr (resp, calls)"
proof (cases "param q ''interval'' ''1d'' \<in> set valid_intervals")
  case True
  then show ?thesis using get_stock_route_valid by blast
next
  case False
  then show ?thesis by (simp add: get_stock_route_def Let_def)
qed

lemma batch_route_returns: "\<exists>resp calls. batch_route w q = Inr (resp, calls)"
proof (cases "param q ''interval'' ''1d'' \<in> set valid_intervals")
  case True
  then show ?thesis using batch_route_valid[of q w] by blast
next
  case False
  then show ?thesis by (simp add: batch_route_def Let_def)
qed

lemma lambda_handler_returns: "\<exists>resp calls. lambda_handler w ev = Inr (resp, calls)"
  using search_route_returns get_stock_route_returns batch_route_returns
  by (simp add: lambda_handler_def Let_def)

lemma route_invalid_interval:
  assumes "param q ''interval'' ''1d'' \<notin> set valid_intervals"
  shows "get_stock_route w q = Inr (invalid_interval_response, [])"
    and "batch_route w q = Inr (invalid_interval_response, [])"
  using assms by (simp_all add: get_stock_route_def batch_route_def Let_def)

text \<open>The definitions a concrete run of the handler unfolds.\<close>

lemmas eval_defs = lambda_handler_def http_method_def query_params_def param_def get_stock_route_def
  batch_route_def search_route_def valid_intervals_def normalize_ticker_def endswith_def
  get_stock_price_yfinance_v8_def fetch_body_def example_world_def provider_doc_def nums_def
  example_event_def example_chart_def initial_result_def
  lambda_stats_def with_series_def with_name_def float_defs upt_rec
  invalid_interval_response_def batch_tickers_def default_tickers_def
  ticker_list_def strip_def py_isspace_def search_ticker_def search_body_def

subsection \<open>C3: validation of the interval\<close>

text \<open>
  C3. On the single-ticker route and on the default route (any request that is not a
  preflight and whose action is not \<open>search\<close>), each of the six intervals 15m, 30m, 60m,
  1d, 1wk, 1mo is accepted: the handler returns a response that is not the
  invalid-interval error, and every fetch it makes uses that interval, which is 1d when
  the parameter is absent. Any other interval yields status 400 with the message that
  lists exactly the six values, and no fetch is made.
\<close>

theorem interval_validation:
  assumes "http_method ev \<noteq> Some ''OPTIONS''"
      and "param (query_params ev) ''action'' ''get_stocks'' \<noteq> ''search''"
  shows "(param (query_params ev) ''interval'' ''1d''
            \<in> {''15m'', ''30m'', ''60m'', ''1d'', ''1wk'', ''1mo''} \<longrightarrow>
          (\<exists>resp calls. lambda_handler w ev = Inr (resp, calls)
             \<and> (\<forall>l. body resp \<noteq> ErrorBody (InvalidInterval l))
             \<and> (\<forall>c \<in> set calls.
                   \<exists>t. c = FetchCall t (param (query_params ev) ''interval'' ''1d''))))
       \<and> (param (query_params ev) ''interval'' ''1d''
            \<notin> {''15m'', ''30m'', ''60m'', ''1d'', ''1wk'', ''1mo''} \<longrightarrow>
          lambda_handler w ev =
            Inr (\<lparr>statusCode = 400, headers = json_headers,
                  body = ErrorBody (InvalidInterval ''15m, 30m, 60m, 1d, 1wk, 1mo'')\<rparr>, []))
       \<and> (query_params ev ''interval'' = None \<longrightarrow>
            param (query_params ev) ''interval'' ''1d'' = ''1d'')"
proof -
  let ?q = "query_params ev"
  let ?i = "param ?q ''interval'' ''1d''"
  have six: "set valid_intervals = {''15m'', ''30m'', ''60m'', ''1d'', ''1wk'', ''1mo''}"
    by (simp add: valid_intervals_def)
  have route: "lambda_handler w ev =
      (if param ?q ''action'' ''get_stocks'' = ''get_stock'' then get_stock_route w ?q
       else batch_route w ?q)"
    using assms by (simp add: lambda_handler_def Let_def)
  have bad: "?i \<notin> set valid_intervals \<Longrightarrow>
      lambda_handler w ev =
        Inr (\<lparr>statusCode = 400, headers = json_headers,
              body = ErrorBody (InvalidInterval ''15m, 30m, 60m, 1d, 1wk, 1mo'')\<rparr>, [])"
    using route_invalid_interval[of ?q w] valid_intervals_join
    by (simp add: route invalid_interval_response_def)
  have good: "\<exists>resp calls. lambda_handler w ev = Inr (resp, calls)
             \<and> (\<forall>l. body resp \<noteq> ErrorBody (InvalidInterval l))
             \<and> (\<forall>c \<in> set calls. \<exists>t. c = FetchCall t ?i)"
    if v: "?i \<in> set valid_intervals"
  proof (cases "param ?q ''action'' ''get_stocks'' = ''get_stock''")
    case True
    then show ?thesis using get_stock_route_valid[OF v, of w] by (simp add: route)
  next
    case False
    obtain r where "batch_route w ?q =
               Inr (\<lparr>statusCode = (if successful (summary r) > 0 then 200 else 500),
                     headers =
                       dict_set (dict_set (dict_set cached_headers
                         ''X-Request-Time-JST'' (now_jst w))
                         ''X-Success-Count'' (str_nat (successful (summary r))))
                         ''X-Failed-Count'' (str_nat (failed (summary r))),
                     body = BatchBody r\<rparr>,
                    map (\<lambda>tn. FetchCall (fst tn) ?i) (batch_tickers (param ?q ''tickers'' [])))"
      using batch_route_valid[OF v, of w] by blast
    with False show ?thesis by (auto simp: route)
  qed
  have dflt: "?q ''interval'' = None \<Longrightarrow> ?i = ''1d''"
    by (simp add: param_def)
  from good bad dflt show ?thesis unfolding six by blast
qed

theorem interval_validation_witness:
  "lambda_handler (example_world (Inr example_chart) (Inl URLError))
      (example_event [(''action'', ''get_stock''), (''ticker'', ''7203''), (''interval'', ''1wk'')]) =
     Inr (\<lparr>statusCode = 200, headers = cached_headers,
           body = StockBody
             \<lparr>current_price = Fin 108, year_high = Fin 110, year_low = Fin 95,
              year_change_pct = Fin 8, data_points = 5,
              data = [\<lparr>p_time = ''day'', p_value = Fin 100\<rparr>,
                      \<lparr>p_time = ''day'', p_value = Fin 105\<rparr>,
                      \<lparr>p_time = ''day'', p_value = Fin 95\<rparr>,
                      \<lparr>p_time = ''day'', p_value = Fin 110\<rparr>,
                      \<lparr>p_time = ''day'', p_value = Fin 108\<rparr>],
              short_name = JStr ''TOYOTA MOTOR CORP'',
              name = JStr ''TOYOTA MOTOR CORP'', ticker = ''7203.T''\<rparr>
             ''2025-01-06 09:00:00 JST''\<rparr>,
          [FetchCall ''7203.T'' ''1wk''])
   \<and> lambda_handler (example_world (Inr example_chart) (Inl URLError))
      (example_event [(''tickers'', ''7203''), (''interval'', ''2d'')]) =
     Inr (\<lparr>statusCode = 400, headers = json_headers,
           body = ErrorBody (InvalidInterval ''15m, 30m, 60m, 1d, 1wk, 1mo'')\<rparr>, [])"
  using interval_validation[of "example_event [(''action'', ''get_stock''), (''ticker'', ''7203''), (''interval'', ''1wk'')]"
          "example_world (Inr example_chart) (Inl URLError)"]
        interval_validation[of "example_event [(''tickers'', ''7203''), (''interval'', ''2d'')]"
          "example_world (Inr example_chart) (Inl URLError)"]
  by (simp add: eval_defs)

subsection \<open>C7: normalisation of tickers\<close>

text \<open>
  C7. Normalisation appends \<open>.T\<close> to a ticker that does not end with it and leaves any
  other ticker unchanged; it is idempotent and its result ends with \<open>.T\<close>. The
  single-ticker route fetches only the normalised \<open>ticker\<close> parameter, the batch route
  with a \<open>tickers\<close> parameter only normalised entries of it, and every ticker the
  handler fetches on any route ends with \<open>.T\<close>.
\<close>

theorem ticker_normalization:
  "(\<not> endswith t ''.T'' \<longrightarrow> normalize_ticker t = t @ ''.T'')
   \<and> (endswith t ''.T'' \<longrightarrow> normalize_ticker t = t)
   \<and> normalize_ticker (normalize_ticker t) = normalize_ticker t
   \<and> endswith (normalize_ticker t) ''.T''
   \<and> (get_stock_route w q1 = Inr (resp1, calls1) \<longrightarrow>
        set (fetched_tickers calls1) \<subseteq> {normalize_ticker (param q1 ''ticker'' [])})
   \<and> (batch_route w q2 = Inr (resp2, calls2) \<and> param q2 ''tickers'' [] \<noteq> [] \<longrightarrow>
        set (fetched_tickers calls2)
          \<subseteq> normalize_ticker ` set (ticker_list (param q2 ''tickers'' [])))
   \<and> (lambda_handler w ev = Inr (resp, calls) \<longrightarrow>
        (\<forall>t' \<in> set (fetched_tickers calls). endswith t' ''.T''))"
proof (intro conjI impI)
  show "normalize_ticker (normalize_ticker t) = normalize_ticker t"
    by (rule normalize_ticker_idem)
  show "endswith (normalize_ticker t) ''.T''"
    by (rule normalize_ticker_endswith)
next
  assume "\<not> endswith t ''.T''"
  then show "normalize_ticker t = t @ ''.T''" by (simp add: normalize_ticker_def)
next
  assume "endswith t ''.T''"
  then show "normalize_ticker t = t" by (simp add: normalize_ticker_def)
next
  assume "get_stock_route w q1 = Inr (resp1, calls1)"
  from get_stock_route_shape[OF this]
  show "set (fetched_tickers calls1) \<subseteq> {normalize_ticker (param q1 ''ticker'' [])}"
    by auto
next
  assume a: "batch_route w q2 = Inr (resp2, calls2) \<and> param q2 ''tickers'' [] \<noteq> []"
  then have keys: "fst ` set (batch_tickers (param q2 ''tickers'' []))
           = normalize_ticker ` set (ticker_list (param q2 ''tickers'' []))"
    by (simp add: batch_tickers_def tickers_of_list_keys)
  from a batch_route_shape[of w q2 resp2 calls2]
  have "set (fetched_tickers calls2) \<subseteq> fst ` set (batch_tickers (param q2 ''tickers'' []))"
    by (auto simp: fetched_tickers_map)
  with keys show "set (fetched_tickers calls2)
          \<subseteq> normalize_ticker ` set (ticker_list (param q2 ''tickers'' []))"
    by simp
next
  assume "lambda_handler w ev = Inr (resp, calls)"
  then show "\<forall>t' \<in> set (fetched_tickers calls). endswith t' ''.T''"
    using handler_fetches_normalized by blast
qed

theorem ticker_normalization_witness:
  "normalize_ticker ''7203'' = ''7203'' @ ''.T'' \<and> normalize_ticker ''7203.T'' = ''7203.T''
   \<and> (\<exists>resp. get_stock_route (example_world (Inr example_chart) (Inl URLError))
        [''ticker'' \<mapsto> ''7203''] = Inr (resp, [FetchCall ''7203.T'' ''1d'']))
   \<and> set (fetched_tickers [FetchCall ''7203.T'' ''1d''])
        \<subseteq> {normalize_ticker (param [''ticker'' \<mapsto> ''7203''] ''ticker'' [])}
   \<and> (\<exists>resp. batch_route (example_world (Inr example_chart) (Inl URLError))
        [''tickers'' \<mapsto> ''7203, 6758.T ,7203.T,,''] =
          Inr (resp, [FetchCall ''7203.T'' ''1d'', FetchCall ''6758.T'' ''1d'']))
   \<and> set (fetched_tickers [FetchCall ''7203.T'' ''1d'', FetchCall ''6758.T'' ''1d''])
        \<subseteq> normalize_ticker ` set (ticker_list
             (param [''tickers'' \<mapsto> ''7203, 6758.T ,7203.T,,''] ''tickers'' []))
   \<and> (\<exists>resp. lambda_handler (example_world (Inr example_chart) (Inl URLError))
        (example_event [(''action'', ''get_stock''), (''ticker'', ''7203'')]) =
          Inr (resp, [FetchCall ''7203.T'' ''1d'']))
   \<and> endswith ''7203.T'' ''.T''"
proof -
  let ?W = "example_world (Inr example_chart) (Inl URLError)"
  let ?q1 = "[''ticker'' \<mapsto> ''7203'']"
  let ?q2 = "[''tickers'' \<mapsto> ''7203, 6758.T ,7203.T,,'']"
  let ?ev = "example_event [(''action'', ''get_stock''), (''ticker'', ''7203'')]"
  let ?c1 = "[FetchCall ''7203.T'' ''1d'']"
  let ?c2 = "[FetchCall ''7203.T'' ''1d'', FetchCall ''6758.T'' ''1d'']"
  have s1: "\<not> endswith ''7203'' ''.T''" and s2: "endswith ''7203.T'' ''.T''"
    by (simp_all add: endswith_def)
  obtain r1 where r1: "get_stock_route ?W ?q1 = Inr (r1, ?c1)"
    by (simp add: eval_defs)
  obtain r2 where r2: "batch_route ?W ?q2 = Inr (r2, ?c2)"
    by (simp add: eval_defs)
  have p2: "param ?q2 ''tickers'' [] \<noteq> []"
    by (simp add: param_def)
  obtain r3 where r3: "lambda_handler ?W ?ev = Inr (r3, ?c1)"
    by (simp add: eval_defs)
  from ticker_normalization[of "''7203''" ?W ?q1 r1 ?c1 ?q2 r2 ?c2 ?ev r3 ?c1]
       ticker_normalization[of "''7203.T''" ?W ?q1 r1 ?c1 ?q2 r2 ?c2 ?ev r3 ?c1]
       s1 s2 r1 r2 p2 r3
  show ?thesis by blast
qed

subsection \<open>C9: headers of every response\<close>

text \<open>
  C9. The handler returns a response on every event. Every response carries the full
  CORS header set; every response with a JSON body carries
  \<open>Content-Type: application/json; charset=utf-8\<close> as well; a preflight (method
  OPTIONS) is answered with status 200, the CORS headers and an empty body, whatever the
  query parameters are.
\<close>

theorem handler_headers:
  "(\<exists>resp calls. lambda_handler w ev = Inr (resp, calls))
   \<and> (lambda_handler w ev = Inr (resp, calls) \<longrightarrow>
        has_cors (headers resp)
        \<and> (body resp \<noteq> EmptyBody \<longrightarrow> has_json_content_type (headers resp)))
   \<and> (httpMethod ev = Some ''OPTIONS''
        \<or> ((httpMethod ev = None \<or> httpMethod ev = Some [])
            \<and> requestContext_http_method ev = Some ''OPTIONS'') \<longrightarrow>
        lambda_handler w ev =
          Inr (\<lparr>statusCode = 200, headers = cors_headers, body = EmptyBody\<rparr>, []))"
proof (intro conjI impI)
  show "\<exists>resp calls. lambda_handler w ev = Inr (resp, calls)"
    by (rule lambda_handler_returns)
next
  assume a: "lambda_handler w ev = Inr (resp, calls)"
  from handler_route[OF a] show "has_cors (headers resp)"
    using cors_headers_cors search_route_shape[of w "query_params ev" resp calls]
      get_stock_route_shape[of w "query_params ev" resp calls]
      batch_route_shape[of w "query_params ev" resp calls]
    by auto
next
  assume a: "lambda_handler w ev = Inr (resp, calls)" and b: "body resp \<noteq> EmptyBody"
  from handler_route[OF a] b show "has_json_content_type (headers resp)"
    using search_route_shape[of w "query_params ev" resp calls]
      get_stock_route_shape[of w "query_params ev" resp calls]
      batch_route_shape[of w "query_params ev" resp calls]
    by auto
next
  assume "httpMethod ev = Some ''OPTIONS''
        \<or> ((httpMethod ev = None \<or> httpMethod ev = Some [])
            \<and> requestContext_http_method ev = Some ''OPTIONS'')"
  then have "http_method ev = Some ''OPTIONS''"
    by (auto simp: http_method_def)
  then show "lambda_handler w ev =
          Inr (\<lparr>statusCode = 200, headers = cors_headers, body = EmptyBody\<rparr>, [])"
    by (simp add: lambda_handler_def)
qed

theorem handler_headers_witness:
  "lambda_handler (example_world (Inr example_chart) (Inl URLError))
     \<lparr>httpMethod = Some ''OPTIONS'', requestContext_http_method = None,
      queryStringParameters = Some [''action'' \<mapsto> ''get_stock'', ''interval'' \<mapsto> ''2d'']\<rparr> =
     Inr (\<lparr>statusCode = 200, headers = cors_headers, body = EmptyBody\<rparr>, [])
   \<and> lambda_handler (example_world (Inr example_chart) (Inl URLError))
        (example_event [(''action'', ''get_stock'')]) =
       Inr (\<lparr>statusCode = 400, headers = json_headers, body = ErrorBody TickerRequired\<rparr>, [])
   \<and> has_cors json_headers \<and> has_json_content_type json_headers"
  using handler_headers[of "example_world (Inr example_chart) (Inl URLError)"
          "\<lparr>httpMethod = Some ''OPTIONS'', requestContext_http_method = None,
      queryStringParameters = Some [''action'' \<mapsto> ''get_stock'', ''interval'' \<mapsto> ''2d'']\<rparr>"]
       handler_headers[of "example_world (Inr example_chart) (Inl URLError)"
          "example_event [(''action'', ''get_stock'')]"
          "\<lparr>statusCode = 400, headers = json_headers, body = ErrorBody TickerRequired\<rparr>" "[]"]
  by (simp add: eval_defs)

subsection \<open>Helper facts about the batch summaries\<close>

lemma batch_loop_stocks:
  "batch_loop w i T (r, c) = Inr (r', c') \<Longrightarrow>
     fst ` set (stocks r') = fst ` set (stocks r) \<union> {t \<in> fst ` set T. fetch_succeeds w i t}"
proof (induction T arbitrary: r c)
  case Nil
  then show ?case by simp
next
  case (Cons tn T)
  obtain t nm where tn: "tn = (t, nm)" by (cases tn)
  obtain f where f: "get_stock_price_yfinance_v8 w t i = Inr f"
    using fetcher_returns by blast
  show ?case
  proof (cases f)
    case None
    with f have ok: "\<not> fetch_succeeds w i t" by (simp add: fetch_succeeds_def)
    from Cons.prems obtain r1 c1 where
      step: "batch_loop w i T (r1, c1) = Inr (r', c')" and r1: "stocks r1 = stocks r"
      by (simp add: tn f None)
    from Cons.IH[OF step] r1 ok show ?thesis by (auto simp: tn)
  next
    case (Some sd)
    with f have ok: "fetch_succeeds w i t" by (simp add: fetch_succeeds_def)
    from Cons.prems obtain r1 c1 where
      step: "batch_loop w i T (r1, c1) = Inr (r', c')"
      and r1: "fst ` set (stocks r1) = insert t (fst ` set (stocks r))"
      by (simp add: tn f Some dict_set_keys)
    from Cons.IH[OF step] r1 ok show ?thesis by (auto simp: tn)
  qed
qed

lemma search_route_body:
  "search_route w q = Inr (resp, calls) \<Longrightarrow> body resp \<noteq> BatchBody r"
proof -
  obtain x where x: "search_ticker w (param q ''q'' []) = Inr x"
    using search_returns by blast
  show "search_route w q = Inr (resp, calls) \<Longrightarrow> body resp \<noteq> BatchBody r"
    by (auto simp: search_route_def Let_def x split: if_splits)
qed

lemma get_stock_route_body:
  "get_stock_route w q = Inr (resp, calls) \<Longrightarrow> body resp \<noteq> BatchBody r"
proof -
  obtain f where f: "get_stock_price_yfinance_v8 w (normalize_ticker (param q ''ticker'' []))
      (param q ''interval'' ''1d'') = Inr f"
    using fetcher_returns by blast
  show "get_stock_route w q = Inr (resp, calls) \<Longrightarrow> body resp \<noteq> BatchBody r"
    by (auto simp: get_stock_route_def Let_def f invalid_interval_response_def
             split: if_splits option.splits)
qed

lemma batch_route_body:
  assumes "batch_route w q = Inr (resp, calls)" "body resp = BatchBody r"
  shows "batch_loop w (param q ''interval'' ''1d'') (batch_tickers (param q ''tickers'' []))
               (initial_result w (length (batch_tickers (param q ''tickers'' []))), []) =
             Inr (r, calls)
         \<and> statusCode resp = (if successful (summary r) > 0 then 200 else 500)"
proof (cases "param q ''interval'' ''1d'' \<in> set valid_intervals")
  case False
  with assms show ?thesis
    by (auto simp: batch_route_def Let_def invalid_interval_response_def)
next
  case True
  from batch_route_valid[OF True, of w] assms show ?thesis by auto
qed

lemma handler_batch_body:
  assumes "lambda_handler w ev = Inr (resp, calls)" "body resp = BatchBody r"
  shows "batch_loop w (param (query_params ev) ''interval'' ''1d'')
           (batch_tickers (param (query_params ev) ''tickers'' []))
           (initial_result w (length (batch_tickers (param (query_params ev) ''tickers'' []))), []) =
             Inr (r, calls)
         \<and> statusCode resp = (if successful (summary r) > 0 then 200 else 500)"
  using handler_route[OF assms(1)] assms(2)
    search_route_body[of w "query_params ev" resp calls r]
    get_stock_route_body[of w "query_params ev" resp calls r]
    batch_route_body[of w "query_params ev" resp calls r]
  by auto

lemma batch_tickers_distinct: "distinct (map fst (batch_tickers p))"
  by (simp add: batch_tickers_def tickers_of_list_distinct default_tickers_def)

lemma batch_tickers_length:
  "p \<noteq> [] \<Longrightarrow> length (batch_tickers p) = card (normalize_ticker ` set (ticker_list p))"
proof -
  assume p: "p \<noteq> []"
  have "length (batch_tickers p) = length (map fst (batch_tickers p))" by simp
  also have "\<dots> = card (set (map fst (batch_tickers p)))"
    using batch_tickers_distinct by (simp only: distinct_card)
  also have "\<dots> = card (normalize_ticker ` set (ticker_list p))"
    using p by (simp add: batch_tickers_def tickers_of_list_keys)
  finally show ?thesis .
qed

lemma count_split: "length (filter P xs) + length (filter (\<lambda>x. \<not> P x) xs) = length xs"
  by (induction xs) auto

lemma offline_loop_state:
  "offline_loop y T (S, F) = (S', F') \<Longrightarrow>
     F' = F @ map fst (filter (\<lambda>tn. \<not> offline_succeeds y tn) T)
     \<and> fst ` set S' = fst ` set S \<union> fst ` set (filter (offline_succeeds y) T)
     \<and> (distinct (map fst S) \<longrightarrow> distinct (map fst S'))"
proof (induction T arbitrary: S F)
  case Nil
  then show ?case by simp
next
  case (Cons tn T)
  obtain t nm where tn: "tn = (t, nm)" by (cases tn)
  show ?case
  proof (cases "offline_succeeds y tn")
    case True
    then obtain e where e: "offline_ticker y t nm = Inr (Some e)"
      by (auto simp: offline_succeeds_def tn split: sum.splits option.splits)
    from Cons.prems have "offline_loop y T (dict_set S t e, F) = (S', F')"
      by (simp add: tn e)
    from Cons.IH[OF this] True show ?thesis
      by (auto simp: tn dict_set_keys dict_set_distinct)
  next
    case False
    then have "offline_loop y (tn # T) (S, F) = offline_loop y T (S, F @ [t])"
      by (auto simp: offline_succeeds_def tn split: sum.splits option.splits)
    with Cons.prems have "offline_loop y T (S, F @ [t]) = (S', F')" by simp
    from Cons.IH[OF this] False show ?thesis
      by (auto simp: tn)
  qed
qed

lemma fetch_data_on_summary:
  assumes "distinct (map fst T)"
  shows "successful (o_summary (fst (fetch_data_on T y now))) = length (filter (offline_succeeds y) T)
     \<and> failed (o_summary (fst (fetch_data_on T y now))) = length (filter (\<lambda>tn. \<not> offline_succeeds y tn) T)
     \<and> failed_tickers (o_summary (fst (fetch_data_on T y now))) = map fst (filter (\<lambda>tn. \<not> offline_succeeds y tn) T)
     \<and> total_tickers (o_summary (fst (fetch_data_on T y now))) = length T
     \<and> map fst (o_stocks (fst (fetch_data_on T y now))) \<in> {ks. set ks = fst ` set (filter (offline_succeeds y) T)}
     \<and> snd (fetch_data_on T y now) = (\<exists>tn \<in> set T. offline_succeeds y tn)"
proof -
  obtain S F where SF: "offline_loop y T ([], []) = (S, F)" by (cases "offline_loop y T ([], [])")
  from offline_loop_state[OF SF]
  have F: "F = map fst (filter (\<lambda>tn. \<not> offline_succeeds y tn) T)"
    and keys: "fst ` set S = fst ` set (filter (offline_succeeds y) T)"
    and d: "distinct (map fst S)" by auto
  have "length S = length (map fst S)" by simp
  also have "\<dots> = card (set (map fst S))" using d by (simp only: distinct_card)
  also have "\<dots> = card (set (map fst (filter (offline_succeeds y) T)))" using keys by simp
  also have "\<dots> = length (map fst (filter (offline_succeeds y) T))"
    using assms by (intro distinct_card) (simp add: distinct_map_filter)
  finally have len: "length S = length (filter (offline_succeeds y) T)" by simp
  have ex: "(0 < length (filter (offline_succeeds y) T)) = (\<exists>tn \<in> set T. offline_succeeds y tn)"
    by (auto simp: filter_empty_conv)
  have ne: "(0 < length S) = (\<exists>tn \<in> set T. offline_succeeds y tn)"
    using len ex by simp
  show ?thesis using F keys len ne by (simp add: fetch_data_on_def SF del: length_greater_0_conv)
qed

lemmas offline_eval_defs = main_exit_code_def fetch_data_def fetch_data_on_def TICKERS_def
  offline_ticker_def selective_library_def offline_chart_data_def offline_stats_def
  float_defs upt_rec

lemma TICKERS_distinct: "distinct (map fst TICKERS)"
  by (simp add: TICKERS_def)

lemma handler_batch_summary:
  assumes "lambda_handler w ev = Inr (resp, calls)" "body resp = BatchBody r"
  shows "total_tickers (summary r) = length (requested_tickers ev)"
    and "successful (summary r) =
           length (filter (fetch_succeeds w (requested_interval ev)) (requested_tickers ev))"
    and "failed (summary r) =
           length (filter (\<lambda>t. \<not> fetch_succeeds w (requested_interval ev) t)
                     (requested_tickers ev))"
    and "failed_tickers (summary r) =
           filter (\<lambda>t. \<not> fetch_succeeds w (requested_interval ev) t) (requested_tickers ev)"
    and "fst ` set (stocks r) =
           {t \<in> set (requested_tickers ev). fetch_succeeds w (requested_interval ev) t}"
    and "statusCode resp = (if successful (summary r) > 0 then 200 else 500)"
proof -
  let ?i = "param (query_params ev) ''interval'' ''1d''"
  let ?T = "batch_tickers (param (query_params ev) ''tickers'' [])"
  from handler_batch_body[OF assms]
  have loop: "batch_loop w ?i ?T (initial_result w (length ?T), []) = Inr (r, calls)"
    and st: "statusCode resp = (if successful (summary r) > 0 then 200 else 500)"
    by auto
  from batch_loop_summary[OF loop]
  show "total_tickers (summary r) = length (requested_tickers ev)"
    and "successful (summary r) =
           length (filter (fetch_succeeds w (requested_interval ev)) (requested_tickers ev))"
    and "failed (summary r) =
           length (filter (\<lambda>t. \<not> fetch_succeeds w (requested_interval ev) t)
                     (requested_tickers ev))"
    and "failed_tickers (summary r) =
           filter (\<lambda>t. \<not> fetch_succeeds w (requested_interval ev) t) (requested_tickers ev)"
    by (simp_all add: initial_result_def requested_tickers_def requested_interval_def)
  from batch_loop_stocks[OF loop]
  show "fst ` set (stocks r) =
           {t \<in> set (requested_tickers ev). fetch_succeeds w (requested_interval ev) t}"
    by (simp add: initial_result_def requested_tickers_def requested_interval_def)
  from st show "statusCode resp = (if successful (summary r) > 0 then 200 else 500)" .
qed

subsection \<open>C5: the outcome signal of a batch\<close>

text \<open>
  C5. A response of the default route with a batch body has status 500 exactly when no
  requested ticker succeeded and status 200 exactly when at least one did; with status
  500 the summary has \<open>successful = 0\<close> and \<open>failed = total_tickers\<close>. In both cases the
  body holds the whole breakdown: the number of successes, the failed tickers in order,
  and an entry in \<open>stocks\<close> for exactly the tickers that succeeded. Such a response is
  returned for every request of the default route with a valid interval. The offline
  fetcher exits with code 1 when no ticker of its list succeeded and with code 0
  otherwise.
\<close>

theorem batch_outcome_signal:
  "(lambda_handler w ev = Inr (resp, calls) \<and> body resp = BatchBody r \<longrightarrow>
      successful (summary r) =
        length (filter (fetch_succeeds w (requested_interval ev)) (requested_tickers ev))
      \<and> failed_tickers (summary r) =
          filter (\<lambda>t. \<not> fetch_succeeds w (requested_interval ev) t) (requested_tickers ev)
      \<and> fst ` set (stocks r) =
          {t \<in> set (requested_tickers ev). fetch_succeeds w (requested_interval ev) t}
      \<and> (statusCode resp = 500) =
          (\<forall>t \<in> set (requested_tickers ev). \<not> fetch_succeeds w (requested_interval ev) t)
      \<and> (statusCode resp = 200) =
          (\<exists>t \<in> set (requested_tickers ev). fetch_succeeds w (requested_interval ev) t)
      \<and> (statusCode resp = 500 \<longrightarrow>
           successful (summary r) = 0 \<and> failed (summary r) = total_tickers (summary r)))
   \<and> (http_method ev \<noteq> Some ''OPTIONS''
       \<and> param (query_params ev) ''action'' ''get_stocks'' \<notin> {''search'', ''get_stock''}
       \<and> requested_interval ev \<in> set valid_intervals \<longrightarrow>
         (\<exists>resp' calls' r'. lambda_handler w ev = Inr (resp', calls') \<and> body resp' = BatchBody r'))
   \<and> main_exit_code y now = (if \<exists>tn \<in> set TICKERS. offline_succeeds y tn then 0 else 1)
   \<and> successful (o_summary (fst (fetch_data y now))) =
       length (filter (offline_succeeds y) TICKERS)
   \<and> failed_tickers (o_summary (fst (fetch_data y now))) =
       map fst (filter (\<lambda>tn. \<not> offline_succeeds y tn) TICKERS)"
proof (intro conjI impI)
  assume a: "lambda_handler w ev = Inr (resp, calls) \<and> body resp = BatchBody r"
  then have h: "lambda_handler w ev = Inr (resp, calls)" "body resp = BatchBody r" by auto
  note s = handler_batch_summary[OF h]
  let ?ok = "fetch_succeeds w (requested_interval ev)"
  show "successful (summary r) = length (filter ?ok (requested_tickers ev))" by (rule s(2))
  show "failed_tickers (summary r) = filter (\<lambda>t. \<not> ?ok t) (requested_tickers ev)"
    by (rule s(4))
  show "fst ` set (stocks r) = {t \<in> set (requested_tickers ev). ?ok t}" by (rule s(5))
  have zero: "(successful (summary r) = 0) = (\<forall>t \<in> set (requested_tickers ev). \<not> ?ok t)"
    by (simp add: s(2) filter_empty_conv)
  have pos: "(0 < successful (summary r)) = (\<exists>t \<in> set (requested_tickers ev). ?ok t)"
    using zero by (cases "successful (summary r) = 0") auto
  show "(statusCode resp = 500) = (\<forall>t \<in> set (requested_tickers ev). \<not> ?ok t)"
    using pos by (simp add: s(6))
  show "(statusCode resp = 200) = (\<exists>t \<in> set (requested_tickers ev). ?ok t)"
    using pos by (simp add: s(6))
  assume "statusCode resp = 500"
  then have z: "successful (summary r) = 0" by (simp add: s(6) split: if_splits)
  then show "successful (summary r) = 0" .
  from z zero have "filter (\<lambda>t. \<not> ?ok t) (requested_tickers ev) = requested_tickers ev"
    by (simp add: filter_id_conv)
  then show "failed (summary r) = total_tickers (summary r)"
    by (simp add: s(1) s(3))
next
  assume a: "http_method ev \<noteq> Some ''OPTIONS''
       \<and> param (query_params ev) ''action'' ''get_stocks'' \<notin> {''search'', ''get_stock''}
       \<and> requested_interval ev \<in> set valid_intervals"
  then have route: "lambda_handler w ev = batch_route w (query_params ev)"
    by (simp add: lambda_handler_def Let_def)
  from a have v: "param (query_params ev) ''interval'' ''1d'' \<in> set valid_intervals"
    by (simp add: requested_interval_def)
  from batch_route_valid[OF v, of w] route
  show "\<exists>resp' calls' r'. lambda_handler w ev = Inr (resp', calls') \<and> body resp' = BatchBody r'"
    by auto
next
  note f = fetch_data_on_summary[OF TICKERS_distinct, of y now]
  from f show "main_exit_code y now = (if \<exists>tn \<in> set TICKERS. offline_succeeds y tn then 0 else 1)"
    by (simp add: main_exit_code_def fetch_data_def)
  from f show "successful (o_summary (fst (fetch_data y now))) =
       length (filter (offline_succeeds y) TICKERS)"
    by (simp add: fetch_data_def)
  from f show "failed_tickers (o_summary (fst (fetch_data y now))) =
       map fst (filter (\<lambda>tn. \<not> offline_succeeds y tn) TICKERS)"
    by (simp add: fetch_data_def)
qed

theorem batch_outcome_signal_witness:
  "(\<exists>resp calls r.
      lambda_handler (selective_world []) (example_event [(''tickers'', ''7203,6758'')]) =
        Inr (resp, calls)
      \<and> body resp = BatchBody r \<and> statusCode resp = 500
      \<and> successful (summary r) = 0 \<and> failed (summary r) = total_tickers (summary r))
   \<and> (\<exists>resp calls r.
      lambda_handler (selective_world [''6758.T'']) (example_event [(''tickers'', ''7203,6758'')]) =
        Inr (resp, calls)
      \<and> body resp = BatchBody r \<and> statusCode resp = 200
      \<and> fetch_succeeds (selective_world [''6758.T''])
            (requested_interval (example_event [(''tickers'', ''7203,6758'')])) ''6758.T'')
   \<and> main_exit_code (selective_library []) ''2025-01-06T09:00:00'' = 1
   \<and> main_exit_code (selective_library [''6758.T'']) ''2025-01-06T09:00:00'' = 0"
proof -
  let ?ev = "example_event [(''tickers'', ''7203,6758'')]"
  let ?now = "''2025-01-06T09:00:00''"
  have "\<exists>resp calls r. lambda_handler (selective_world []) ?ev = Inr (resp, calls)
      \<and> body resp = BatchBody r \<and> statusCode resp = 500"
    by (simp add: eval_defs selective_world_def)
  then obtain resp calls r where
    h: "lambda_handler (selective_world []) ?ev = Inr (resp, calls) \<and> body resp = BatchBody r"
    and st: "statusCode resp = 500" by blast
  from batch_outcome_signal[of "selective_world []" ?ev resp calls r "selective_library []" ?now]
    h st
  have z: "successful (summary r) = 0 \<and> failed (summary r) = total_tickers (summary r)"
    by simp
  have "\<exists>resp calls r. lambda_handler (selective_world [''6758.T'']) ?ev = Inr (resp, calls)
      \<and> body resp = BatchBody r \<and> statusCode resp = 200"
    by (simp add: eval_defs selective_world_def)
  then obtain resp' calls' r' where
    h': "lambda_handler (selective_world [''6758.T'']) ?ev = Inr (resp', calls')
         \<and> body resp' = BatchBody r'"
    and st': "statusCode resp' = 200" by blast
  have ok: "fetch_succeeds (selective_world [''6758.T'']) (requested_interval ?ev) ''6758.T''"
    by (simp add: fetch_succeeds_def requested_interval_def eval_defs selective_world_def)
  have x0: "\<not> (\<exists>tn \<in> set TICKERS. offline_succeeds (selective_library []) tn)"
    by (simp add: offline_succeeds_def offline_eval_defs)
  have x1: "\<exists>tn \<in> set TICKERS. offline_succeeds (selective_library [''6758.T'']) tn"
    by (simp add: offline_succeeds_def offline_eval_defs)
  from batch_outcome_signal[of "selective_world []" ?ev resp calls r "selective_library []" ?now]
    x0
  have e0: "main_exit_code (selective_library []) ?now = 1" by simp
  from batch_outcome_signal[of "selective_world [''6758.T'']" ?ev resp' calls' r'
         "selective_library [''6758.T'']" ?now] x1
  have e1: "main_exit_code (selective_library [''6758.T'']) ?now = 0" by simp
  from h st z h' st' ok e0 e1 show ?thesis by blast
qed

subsection \<open>C10: the counts of a batch summary\<close>

text \<open>
  C10. In every batch summary of the default route and of the offline fetcher,
  \<open>successful + failed = total_tickers\<close> and \<open>failed\<close> is the length of
  \<open>failed_tickers\<close>; \<open>total_tickers\<close> is the number of distinct tickers processed, which
  for a \<open>tickers\<close> parameter are the normalised entries of the comma-separated list, so
  that duplicates count once.
\<close>

theorem batch_summary_counts:
  "(lambda_handler w ev = Inr (resp, calls) \<and> body resp = BatchBody r \<longrightarrow>
      successful (summary r) + failed (summary r) = total_tickers (summary r)
      \<and> failed (summary r) = length (failed_tickers (summary r))
      \<and> total_tickers (summary r) = card (set (requested_tickers ev))
      \<and> (param (query_params ev) ''tickers'' [] \<noteq> [] \<longrightarrow>
           set (requested_tickers ev) =
             normalize_ticker ` set (ticker_list (param (query_params ev) ''tickers'' []))))
   \<and> (fetch_data y now = (res, ok) \<longrightarrow>
        successful (o_summary res) + failed (o_summary res) = total_tickers (o_summary res)
        \<and> failed (o_summary res) = length (failed_tickers (o_summary res))
        \<and> total_tickers (o_summary res) = card (fst ` set TICKERS))"
proof (intro conjI impI)
  assume a: "lambda_handler w ev = Inr (resp, calls) \<and> body resp = BatchBody r"
  then have h: "lambda_handler w ev = Inr (resp, calls)" "body resp = BatchBody r" by auto
  note s = handler_batch_summary[OF h]
  show "successful (summary r) + failed (summary r) = total_tickers (summary r)"
    by (simp add: s(1) s(2) s(3) count_split)
  show "failed (summary r) = length (failed_tickers (summary r))"
    by (simp add: s(3) s(4))
  have "distinct (requested_tickers ev)"
    by (simp add: requested_tickers_def batch_tickers_distinct)
  then show "total_tickers (summary r) = card (set (requested_tickers ev))"
    by (simp only: s(1) distinct_card)
next
  assume "param (query_params ev) ''tickers'' [] \<noteq> []"
  then show "set (requested_tickers ev) =
             normalize_ticker ` set (ticker_list (param (query_params ev) ''tickers'' []))"
    by (simp add: requested_tickers_def batch_tickers_def tickers_of_list_keys)
next
  assume a: "fetch_data y now = (res, ok)"
  note f = fetch_data_on_summary[OF TICKERS_distinct, of y now]
  from a have res: "fst (fetch_data_on TICKERS y now) = res" by (simp add: fetch_data_def)
  show "successful (o_summary res) + failed (o_summary res) = total_tickers (o_summary res)"
    using f count_split[of "offline_succeeds y" TICKERS] by (simp add: res)
  show "failed (o_summary res) = length (failed_tickers (o_summary res))"
    using f by (simp add: res)
  have "card (fst ` set TICKERS) = length (map fst TICKERS)"
    using TICKERS_distinct distinct_card[of "map fst TICKERS"] by simp
  then show "total_tickers (o_summary res) = card (fst ` set TICKERS)"
    using f by (simp add: res)
qed

theorem batch_summary_counts_witness:
  "(\<exists>resp calls r.
      lambda_handler (selective_world [''6758.T''])
        (example_event [(''tickers'', ''7203, 6758.T ,7203.T,,'')]) = Inr (resp, calls)
      \<and> body resp = BatchBody r
      \<and> successful (summary r) + failed (summary r) = total_tickers (summary r)
      \<and> failed (summary r) = length (failed_tickers (summary r))
      \<and> total_tickers (summary r) = 2)
   \<and> (\<exists>res ok. fetch_data (selective_library [''6758.T'']) ''2025-01-06T09:00:00'' = (res, ok)
      \<and> successful (o_summary res) + failed (o_summary res) = total_tickers (o_summary res)
      \<and> failed (o_summary res) = length (failed_tickers (o_summary res))
      \<and> total_tickers (o_summary res) = 5)"
proof -
  let ?ev = "example_event [(''tickers'', ''7203, 6758.T ,7203.T,,'')]"
  let ?w = "selective_world [''6758.T'']"
  let ?y = "selective_library [''6758.T'']"
  let ?now = "''2025-01-06T09:00:00''"
  have "\<exists>resp calls r. lambda_handler ?w ?ev = Inr (resp, calls)
      \<and> body resp = BatchBody r \<and> total_tickers (summary r) = 2"
    by (simp add: eval_defs selective_world_def)
  then obtain resp calls r where
    h: "lambda_handler ?w ?ev = Inr (resp, calls) \<and> body resp = BatchBody r"
    and t: "total_tickers (summary r) = 2" by blast
  have "\<exists>res ok. fetch_data ?y ?now = (res, ok) \<and> total_tickers (o_summary res) = 5"
    by (simp add: offline_eval_defs) blast
  then obtain res ok where f: "fetch_data ?y ?now = (res, ok)"
    and t': "total_tickers (o_summary res) = 5" by blast
  from batch_summary_counts[of ?w ?ev resp calls r ?y ?now res ok] h f
  have "successful (summary r) + failed (summary r) = total_tickers (summary r)
      \<and> failed (summary r) = length (failed_tickers (summary r))
      \<and> successful (o_summary res) + failed (o_summary res) = total_tickers (o_summary res)
      \<and> failed (o_summary res) = length (failed_tickers (o_summary res))"
    by simp
  with h t f t' show ?thesis by blast
qed

subsection \<open>C6: the fetchers never raise\<close>

lemma chart_loop_all_null:
  "\<forall>p \<in> set ps. p = JNull \<Longrightarrow> chart_loop w b ts (JArr ps) idx = Inr []"
  by (induction idx) auto

lemma fetch_body_error:
  "fetch_body w t i = Inl e \<Longrightarrow> get_stock_price_yfinance_v8 w t i = Inr None"
  by (cases e) (simp_all add: get_stock_price_yfinance_v8_def)

lemma fetch_body_transport:
  "chart_api w t i = Inl e \<Longrightarrow> fetch_body w t i = Inl e"
  by (simp add: fetch_body_def)

lemma fetch_no_chart:
  "chart_api w t i = Inr d \<Longrightarrow> py_contains ''chart'' d = Inr False \<Longrightarrow>
   get_stock_price_yfinance_v8 w t i = Inr None"
  by (simp add: get_stock_price_yfinance_v8_def fetch_body_def)

lemma search_body_error: "search_body w q = Inl e \<Longrightarrow> search_ticker w q = Inr []"
  by (simp add: search_ticker_def)

lemma search_transport: "search_api w q = Inl e \<Longrightarrow> search_body w q = Inl e"
  by (simp add: search_body_def)

text \<open>The fetcher reads a response of the documented shape as \<open>spec_series\<close> says.\<close>

lemma as_obj_Some: "as_obj x = Some kvs \<Longrightarrow> x = JObj kvs"
  by (cases x) (simp_all add: as_obj_def)

lemma as_arr_Some: "as_arr x = Some xs \<Longrightarrow> x = JArr xs"
  by (cases x) (simp_all add: as_arr_def)

lemma first_obj_Some: "first_obj xs = Some kvs \<Longrightarrow> \<exists>rest. xs = JObj kvs # rest"
  by (cases xs) (auto simp: first_obj_def dest: as_obj_Some)

lemma spec_quote_Some:
  assumes "spec_quote doc = Some q"
  shows "\<exists>d c rest. doc = JObj d \<and> map_of d ''chart'' = Some (JObj c)
           \<and> map_of c ''result'' = Some (JArr (JObj q # rest))"
proof -
  from assms obtain d chart c result xs where
    "as_obj doc = Some d" "map_of d ''chart'' = Some chart" "as_obj chart = Some c"
    "map_of c ''result'' = Some result" "as_arr result = Some xs" "first_obj xs = Some q"
    by (auto simp: spec_quote_def split: bind_splits)
  then show ?thesis
    by (auto dest!: as_obj_Some as_arr_Some first_obj_Some)
qed

lemma py_get_obj_field: "py_get (JObj kvs) k d = Inr (field_of (JObj kvs) k d)"
  by (simp add: field_of_def)

lemma fetch_body_quote:
  assumes api: "chart_api w t i = Inr doc" and q: "spec_quote doc = Some q"
  shows "fetch_body w t i =
     try_bind (py_get (field_of (JObj q) ''meta'' (JObj [])) ''shortName'' (JStr t)) (\<lambda>sn.
     try_bind (py_get (field_of (JObj q) ''indicators'' (JObj [])) ''quote'' (JArr [JObj []]))
       (\<lambda>quotes.
     try_bind (py_getitem_idx quotes 0) (\<lambda>q0.
     try_bind (py_get q0 ''close'' (JArr [])) (\<lambda>prices.
     if \<not> py_truthy (field_of (JObj q) ''timestamp'' (JArr [])) \<or> \<not> py_truthy prices
     then Inr None
     else
     try_bind (py_len (field_of (JObj q) ''timestamp'' (JArr []))) (\<lambda>n.
     try_bind (chart_loop w (i \<in> set [''15m'', ''30m'', ''60m''])
                 (field_of (JObj q) ''timestamp'' (JArr [])) prices [0..<n])
       (\<lambda>chart_data.
     if map p_value chart_data = [] then Inr None
     else
     try_bind (lambda_stats (map p_value chart_data)) (\<lambda>st.
     Inr (Some (with_series st chart_data sn)))))))))"
proof -
  from spec_quote_Some[OF q] obtain d c rest where
    doc: "doc = JObj d" and ch: "map_of d ''chart'' = Some (JObj c)"
    and res: "map_of c ''result'' = Some (JArr (JObj q # rest))"
    by blast
  have k1: "''chart'' \<in> fst ` set d" using ch by (metis domI dom_map_of_conv_image_fst)
  have k2: "''result'' \<in> fst ` set c" using res by (metis domI dom_map_of_conv_image_fst)
  show ?thesis
    using k1 k2
    by (simp add: fetch_body_def api doc ch res field_of_def cong: if_cong)
qed

lemma fetch_body_series:
  assumes api: "chart_api w t i = Inr doc" and sp: "spec_series doc = Some (ts, ps)"
  shows "fetch_body w t i =
     (if ts = [] \<or> ps = [] then Inr None
      else try_bind (chart_loop w (i \<in> set [''15m'', ''30m'', ''60m'']) (JArr ts) (JArr ps)
                       [0..<length ts])
        (\<lambda>chart_data.
          if map p_value chart_data = [] then Inr None
          else try_bind (lambda_stats (map p_value chart_data)) (\<lambda>st.
                 Inr (Some (with_series st chart_data (spec_short_name t doc))))))"
proof -
  from sp obtain q meta ind qs q0 where
    q: "spec_quote doc = Some q"
    and m: "as_obj (field_of (JObj q) ''meta'' (JObj [])) = Some meta"
    and t: "as_arr (field_of (JObj q) ''timestamp'' (JArr [])) = Some ts"
    and i: "as_obj (field_of (JObj q) ''indicators'' (JObj [])) = Some ind"
    and qs: "as_arr (field_of (JObj ind) ''quote'' (JArr [JObj []])) = Some qs"
    and q0: "first_obj qs = Some q0"
    and p: "as_arr (field_of (JObj q0) ''close'' (JArr [])) = Some ps"
    by (auto simp: spec_series_def split: bind_splits)
  from first_obj_Some[OF q0] obtain rest where rest: "qs = JObj q0 # rest" by blast
  note m' = as_obj_Some[OF m] and t' = as_arr_Some[OF t] and i' = as_obj_Some[OF i]
    and qs' = as_arr_Some[OF qs] and p' = as_arr_Some[OF p]
  have sn: "spec_short_name t doc = field_of (JObj meta) ''shortName'' (JStr t)"
    by (simp add: spec_short_name_def q m')
  show ?thesis
    unfolding fetch_body_quote[OF api q] m' t' i' sn
    by (simp add: py_get_obj_field qs' rest p' del: py_get.simps cong: if_cong)
qed

lemma spec_series_provider_doc: "spec_series (provider_doc ts ps) = Some (ts, ps)"
  by (simp add: spec_series_def spec_quote_def provider_doc_def as_obj_def as_arr_def
        first_obj_def field_of_def)

lemma spec_series_full_doc: "spec_series (full_doc ts ps) = Some (ts, ps)"
  by (simp add: spec_series_def spec_quote_def full_doc_def as_obj_def as_arr_def
        first_obj_def field_of_def)

lemma spec_short_name_full_doc: "spec_short_name t (full_doc ts ps) = JStr ''TOYOTA MOTOR CORP''"
  by (simp add: spec_short_name_def spec_quote_def full_doc_def as_obj_def as_arr_def
        first_obj_def field_of_def)

lemma fetch_no_result:
  assumes "chart_api w t i = Inr (JObj kvs)" "map_of kvs ''chart'' = Some (JObj c)"
      and "map_of c ''result'' = None \<or> map_of c ''result'' = Some JNull
           \<or> map_of c ''result'' = Some (JArr [])"
  shows "get_stock_price_yfinance_v8 w t i = Inr None"
proof -
  have k1: "''chart'' \<in> fst ` set kvs"
    using assms(2) by (metis domI dom_map_of_conv_image_fst)
  have "fetch_body w t i = Inr None"
  proof (cases "map_of c ''result''")
    case None
    then have "''result'' \<notin> fst ` set c" by (metis domIff dom_map_of_conv_image_fst)
    then show ?thesis using k1 by (simp add: fetch_body_def assms(1,2))
  next
    case (Some r)
    then have k2: "''result'' \<in> fst ` set c" by (metis domI dom_map_of_conv_image_fst)
    from Some assms(3) have "r = JNull \<or> r = JArr []" by auto
    then show ?thesis using k1 k2 Some by (auto simp: fetch_body_def assms(1,2))
  qed
  then show ?thesis by (simp add: get_stock_price_yfinance_v8_def)
qed

lemma fetch_series_empty_or_nulled:
  assumes "chart_api w t i = Inr doc" "spec_series doc = Some (ts, ps)"
      and "ts = [] \<or> ps = [] \<or> (\<forall>p \<in> set ps. p = JNull)"
  shows "get_stock_price_yfinance_v8 w t i = Inr None"
proof -
  have "fetch_body w t i = Inr None"
  proof (cases "ts = [] \<or> ps = []")
    case True
    then show ?thesis by (simp add: fetch_body_series[OF assms(1,2)])
  next
    case False
    with assms(3) have "\<forall>p \<in> set ps. p = JNull" by blast
    then show ?thesis using False
      by (simp add: fetch_body_series[OF assms(1,2)] chart_loop_all_null)
  qed
  then show ?thesis by (simp add: get_stock_price_yfinance_v8_def)
qed

text \<open>
  C6. The Quote Fetcher returns on every input and every upstream outcome, and it
  returns None when the transport fails (any exception of the request: a timeout, a URL
  error, a non-2xx status, undecodable or malformed JSON), when any other exception
  arises in its body, when the document has no \<open>chart\<close> member, when \<open>chart.result\<close> is
  absent, null or empty, and when, in a response of the documented shape with whatever
  other members, the timestamp array or the close-price array is empty or every close is
  null. The Ticker Search returns on every input, and returns the empty list when the
  request fails or any exception arises in its body.
\<close>

theorem fetchers_never_raise:
  "(\<exists>r. get_stock_price_yfinance_v8 w t i = Inr r)
   \<and> (chart_api w t i = Inl e1 \<longrightarrow> get_stock_price_yfinance_v8 w t i = Inr None)
   \<and> (fetch_body w t i = Inl e2 \<longrightarrow> get_stock_price_yfinance_v8 w t i = Inr None)
   \<and> (chart_api w t i = Inr d \<and> py_contains ''chart'' d = Inr False \<longrightarrow>
        get_stock_price_yfinance_v8 w t i = Inr None)
   \<and> (chart_api w t i = Inr (JObj kvs) \<and> map_of kvs ''chart'' = Some (JObj c)
        \<and> (map_of c ''result'' = None \<or> map_of c ''result'' = Some JNull
            \<or> map_of c ''result'' = Some (JArr [])) \<longrightarrow>
        get_stock_price_yfinance_v8 w t i = Inr None)
   \<and> (chart_api w t i = Inr doc \<and> spec_series doc = Some (ts, ps)
        \<and> (ts = [] \<or> ps = [] \<or> (\<forall>p \<in> set ps. p = JNull)) \<longrightarrow>
        get_stock_price_yfinance_v8 w t i = Inr None)
   \<and> (\<exists>r. search_ticker w q = Inr r)
   \<and> (search_api w q = Inl e3 \<longrightarrow> search_ticker w q = Inr [])
   \<and> (search_body w q = Inl e4 \<longrightarrow> search_ticker w q = Inr [])"
proof (intro conjI impI)
  show "\<exists>r. get_stock_price_yfinance_v8 w t i = Inr r" by (rule fetcher_returns)
  show "\<exists>r. search_ticker w q = Inr r" by (rule search_returns)
next
  assume "chart_api w t i = Inl e1"
  then show "get_stock_price_yfinance_v8 w t i = Inr None"
    using fetch_body_transport fetch_body_error by blast
next
  assume "fetch_body w t i = Inl e2"
  then show "get_stock_price_yfinance_v8 w t i = Inr None" by (rule fetch_body_error)
next
  assume "chart_api w t i = Inr d \<and> py_contains ''chart'' d = Inr False"
  then show "get_stock_price_yfinance_v8 w t i = Inr None" using fetch_no_chart by blast
next
  assume "chart_api w t i = Inr (JObj kvs) \<and> map_of kvs ''chart'' = Some (JObj c)
        \<and> (map_of c ''result'' = None \<or> map_of c ''result'' = Some JNull
            \<or> map_of c ''result'' = Some (JArr []))"
  then show "get_stock_price_yfinance_v8 w t i = Inr None"
    using fetch_no_result[of w t i kvs c] by blast
next
  assume "chart_api w t i = Inr doc \<and> spec_series doc = Some (ts, ps)
        \<and> (ts = [] \<or> ps = [] \<or> (\<forall>p \<in> set ps. p = JNull))"
  then show "get_stock_price_yfinance_v8 w t i = Inr None"
    using fetch_series_empty_or_nulled[of w t i doc ts ps] by blast
next
  assume "search_api w q = Inl e3"
  then show "search_ticker w q = Inr []" using search_transport search_body_error by blast
next
  assume "search_body w q = Inl e4"
  then show "search_ticker w q = Inr []" by (rule search_body_error)
qed

theorem fetchers_never_raise_witness:
  "get_stock_price_yfinance_v8 (example_world (Inl (HTTPError 503)) (Inl TimeoutError))
      ''7203.T'' ''1d'' = Inr None
   \<and> fetch_body (example_world (Inr (JNum (Fin 3))) (Inr (JArr []))) ''7203.T'' ''1d'' =
       Inl TypeError
   \<and> get_stock_price_yfinance_v8 (example_world (Inr (JNum (Fin 3))) (Inr (JArr [])))
       ''7203.T'' ''1d'' = Inr None
   \<and> get_stock_price_yfinance_v8 (example_world (Inr (JObj [])) (Inr (JArr [])))
       ''7203.T'' ''1d'' = Inr None
   \<and> get_stock_price_yfinance_v8
       (example_world
          (Inr (JObj [(''chart'', JObj [(''result'', JNull),
                                        (''error'', JObj [(''code'', JStr ''Not Found'')])])]))
          (Inr (JArr [])))
       ''0000.T'' ''1d'' = Inr None
   \<and> get_stock_price_yfinance_v8
       (example_world (Inr (full_doc (nums [1, 2]) [JNull, JNull])) (Inr (JArr [])))
       ''7203.T'' ''1d'' = Inr None
   \<and> get_stock_price_yfinance_v8
       (example_world (Inr (full_doc [] [])) (Inr (JArr [])))
       ''7203.T'' ''1d'' = Inr None
   \<and> search_ticker (example_world (Inl (HTTPError 503)) (Inl TimeoutError)) ''toyota'' = Inr []
   \<and> search_body (example_world (Inr (JNum (Fin 3))) (Inr (JArr []))) ''toyota'' =
       Inl AttributeError
   \<and> search_ticker (example_world (Inr (JNum (Fin 3))) (Inr (JArr []))) ''toyota'' = Inr []"
proof -
  let ?down = "example_world (Inl (HTTPError 503)) (Inl TimeoutError)"
  let ?odd = "example_world (Inr (JNum (Fin 3))) (Inr (JArr []))"
  let ?bare = "example_world (Inr (JObj [])) (Inr (JArr []))"
  let ?c = "[(''result'', JNull), (''error'', JObj [(''code'', JStr ''Not Found'')])]"
  let ?kvs = "[(''chart'', JObj ?c)]"
  let ?unknown = "example_world (Inr (JObj ?kvs)) (Inr (JArr []))"
  let ?nulled = "example_world (Inr (full_doc (nums [1, 2]) [JNull, JNull])) (Inr (JArr []))"
  let ?empty = "example_world (Inr (full_doc [] [])) (Inr (JArr []))"
  have a1: "chart_api ?down ''7203.T'' ''1d'' = Inl (HTTPError 503)"
    and a2: "search_api ?down ''toyota'' = Inl TimeoutError"
    by (simp_all add: example_world_def)
  have b1: "fetch_body ?odd ''7203.T'' ''1d'' = Inl TypeError"
    and b2: "search_body ?odd ''toyota'' = Inl AttributeError"
    by (simp_all add: example_world_def fetch_body_def search_body_def)
  have c1: "chart_api ?bare ''7203.T'' ''1d'' = Inr (JObj [])
            \<and> py_contains ''chart'' (JObj []) = Inr False"
    by (simp add: example_world_def)
  have u1: "chart_api ?unknown ''0000.T'' ''1d'' = Inr (JObj ?kvs)
            \<and> map_of ?kvs ''chart'' = Some (JObj ?c)
            \<and> (map_of ?c ''result'' = None \<or> map_of ?c ''result'' = Some JNull
                \<or> map_of ?c ''result'' = Some (JArr []))"
    by (simp add: example_world_def)
  have d1: "chart_api ?nulled ''7203.T'' ''1d'' = Inr (full_doc (nums [1, 2]) [JNull, JNull])
            \<and> spec_series (full_doc (nums [1, 2]) [JNull, JNull]) = Some (nums [1, 2], [JNull, JNull])
            \<and> (nums [1, 2] = [] \<or> [JNull, JNull] = [] \<or> (\<forall>p \<in> set [JNull, JNull]. p = JNull))"
    by (simp add: example_world_def spec_series_full_doc)
  have e1: "chart_api ?empty ''7203.T'' ''1d'' = Inr (full_doc [] [])
            \<and> spec_series (full_doc [] []) = Some ([], [])
            \<and> ([] = ([] :: json list) \<or> [] = ([] :: json list)
                \<or> (\<forall>p \<in> set ([] :: json list). p = JNull))"
    by (simp add: example_world_def spec_series_full_doc)
  from fetchers_never_raise[of ?down "''7203.T''" "''1d''" "HTTPError 503" _ _ _ _ _ _ _
         "''toyota''" TimeoutError] a1 a2
  have r1: "get_stock_price_yfinance_v8 ?down ''7203.T'' ''1d'' = Inr None
            \<and> search_ticker ?down ''toyota'' = Inr []"
    by blast
  from fetchers_never_raise[of ?odd "''7203.T''" "''1d''" _ TypeError _ _ _ _ _ _ "''toyota''" _
         AttributeError] b1 b2
  have r2: "get_stock_price_yfinance_v8 ?odd ''7203.T'' ''1d'' = Inr None
            \<and> search_ticker ?odd ''toyota'' = Inr []"
    by blast
  from fetchers_never_raise[of ?bare "''7203.T''" "''1d''" _ _ "JObj []"] c1
  have r3: "get_stock_price_yfinance_v8 ?bare ''7203.T'' ''1d'' = Inr None"
    by blast
  from fetchers_never_raise[of ?unknown "''0000.T''" "''1d''" _ _ _ ?kvs ?c] u1
  have r4: "get_stock_price_yfinance_v8 ?unknown ''0000.T'' ''1d'' = Inr None"
    by blast
  from fetchers_never_raise[of ?nulled "''7203.T''" "''1d''" _ _ _ _ _
         "full_doc (nums [1, 2]) [JNull, JNull]" "nums [1, 2]" "[JNull, JNull]"] d1
  have r5: "get_stock_price_yfinance_v8 ?nulled ''7203.T'' ''1d'' = Inr None"
    by blast
  from fetchers_never_raise[of ?empty "''7203.T''" "''1d''" _ _ _ _ _ "full_doc [] []" "[]" "[]"] e1
  have r6: "get_stock_price_yfinance_v8 ?empty ''7203.T'' ''1d'' = Inr None"
    by blast
  from r1 r2 r3 r4 r5 r6 b1 b2 show ?thesis by blast
qed

subsection \<open>C8: the search results\<close>

lemma py_get_field_of: "py_get quote k d = Inr v \<Longrightarrow> v = field_of quote k d"
  by (cases quote) (auto simp: field_of_def split: option.splits)

lemma py_get_obj: "py_get (JObj kvs) k d = Inr (field_of (JObj kvs) k d)"
  by (simp add: field_of_def split: option.splits)

lemma search_loop_obj:
  "search_loop (JObj kvs # rest) =
     try_bind (py_endswith (field_of (JObj kvs) ''symbol'' (JStr [])) ''.T'') (\<lambda>keep.
       if keep
       then try_bind (search_loop rest) (\<lambda>more. Inr (spec_search_entry (JObj kvs) # more))
       else search_loop rest)"
  by (simp add: field_of_def spec_search_entry_def cong: if_cong)

lemma search_loop_not_obj: "\<forall>kvs. quote \<noteq> JObj kvs \<Longrightarrow> \<exists>e. search_loop (quote # rest) = Inl e"
  by (cases quote) auto

lemma search_loop_spec:
  "search_loop quotes = Inr results \<Longrightarrow>
     results = map spec_search_entry (filter spec_symbol_kept quotes)"
proof (induction quotes arbitrary: results)
  case Nil
  then show ?case by simp
next
  case (Cons quote rest)
  from Cons.prems search_loop_not_obj[of quote rest] obtain kvs where kvs: "quote = JObj kvs"
    by fastforce
  let ?sym = "field_of quote ''symbol'' (JStr [])"
  note step = Cons.prems[unfolded kvs search_loop_obj]
  from step obtain s where s: "field_of (JObj kvs) ''symbol'' (JStr []) = JStr s"
    by (cases "field_of (JObj kvs) ''symbol'' (JStr [])") auto
  show ?case
  proof (cases "endswith s ''.T''")
    case True
    then have keep: "spec_symbol_kept quote" by (simp add: spec_symbol_kept_def s kvs)
    from step True obtain more where
      more: "search_loop rest = Inr more" and r: "results = spec_search_entry quote # more"
      by (cases "search_loop rest") (auto simp: s kvs)
    from Cons.IH[OF more] r keep show ?thesis by simp
  next
    case False
    then have drop: "\<not> spec_symbol_kept quote" by (simp add: spec_symbol_kept_def s kvs)
    from step False have "search_loop rest = Inr results"
      by (simp add: s)
    from Cons.IH[OF this] drop show ?thesis by simp
  qed
qed

lemma search_loop_well_formed:
  "\<forall>x \<in> set quotes. well_formed_quote x \<Longrightarrow>
     search_loop quotes = Inr (map spec_search_entry (filter spec_symbol_kept quotes))"
proof (induction quotes)
  case Nil
  show ?case by simp
next
  case (Cons quote rest)
  then have wf: "well_formed_quote quote"
    and IH: "search_loop rest = Inr (map spec_search_entry (filter spec_symbol_kept rest))"
    by auto
  from wf obtain kvs where kvs: "quote = JObj kvs"
    by (cases quote) (auto simp: well_formed_quote_def)
  from wf kvs obtain s where s: "field_of (JObj kvs) ''symbol'' (JStr []) = JStr s"
    by (auto simp: well_formed_quote_def field_of_def split: option.splits json.splits)
  have "search_loop (JObj kvs # rest) =
      Inr (map spec_search_entry (filter spec_symbol_kept (JObj kvs # rest)))"
    unfolding search_loop_obj by (simp add: s IH spec_symbol_kept_def)
  then show ?case by (simp only: kvs)
qed

lemma kept_symbol:
  "spec_symbol_kept x \<Longrightarrow> \<exists>s. sr_symbol (spec_search_entry x) = JStr s \<and> endswith s ''.T''"
  by (auto simp: spec_symbol_kept_def spec_search_entry_def split: json.splits)

lemma search_ticker_cases:
  assumes "search_ticker w q = Inr results"
  shows "results = [] \<or>
     (\<exists>data quotes. search_api w q = Inr data
        \<and> py_iter (field_of data ''quotes'' (JArr [])) = Inr quotes
        \<and> results = map spec_search_entry (filter spec_symbol_kept quotes))"
proof (cases "search_body w q")
  case (Inl e)
  with assms show ?thesis by (simp add: search_ticker_def)
next
  case (Inr res)
  with assms have res: "res = results" by (simp add: search_ticker_def)
  from Inr obtain data where data: "search_api w q = Inr data"
    by (cases "search_api w q") (auto simp: search_body_def)
  from Inr data obtain qs where qs: "py_get data ''quotes'' (JArr []) = Inr qs"
    by (cases "py_get data ''quotes'' (JArr [])") (auto simp: search_body_def)
  from Inr data qs obtain quotes where it: "py_iter qs = Inr quotes"
    by (cases "py_iter qs") (auto simp: search_body_def)
  from Inr data qs it have "search_loop quotes = Inr results"
    by (simp add: search_body_def res)
  from search_loop_spec[OF this] data it py_get_field_of[OF qs] show ?thesis by blast
qed

text \<open>
  C8. Every entry of a search result has a symbol that is a string ending with \<open>.T\<close>.
  A result is either empty or, for the list \<open>quotes\<close> of the upstream answer, the kept
  entries of that list in order, each with its short name, else its long name, else its
  symbol as name, its type or \<open>Stock\<close>, and its exchange or the empty string (a field
  counts as missing when the key is absent). When every upstream entry is a dict whose
  symbol, if any, is a string, the result is exactly that list.
\<close>

theorem search_results_filtered:
  "(search_ticker w q = Inr results \<longrightarrow>
      (\<forall>r \<in> set results. \<exists>s. sr_symbol r = JStr s \<and> endswith s ''.T'')
      \<and> (results = [] \<or>
          (\<exists>data quotes. search_api w q = Inr data
             \<and> py_iter (field_of data ''quotes'' (JArr [])) = Inr quotes
             \<and> results = map spec_search_entry (filter spec_symbol_kept quotes))))
   \<and> (search_api w q = Inr (JObj kvs)
       \<and> py_iter (field_of (JObj kvs) ''quotes'' (JArr [])) = Inr quotes'
       \<and> (\<forall>x \<in> set quotes'. well_formed_quote x) \<longrightarrow>
         search_ticker w q = Inr (map spec_search_entry (filter spec_symbol_kept quotes')))"
proof (intro conjI impI)
  assume a: "search_ticker w q = Inr results"
  from search_ticker_cases[OF a]
  show c: "results = [] \<or>
          (\<exists>data quotes. search_api w q = Inr data
             \<and> py_iter (field_of data ''quotes'' (JArr [])) = Inr quotes
             \<and> results = map spec_search_entry (filter spec_symbol_kept quotes))" .
  show "\<forall>r \<in> set results. \<exists>s. sr_symbol r = JStr s \<and> endswith s ''.T''"
    using c kept_symbol by auto
next
  assume a: "search_api w q = Inr (JObj kvs)
       \<and> py_iter (field_of (JObj kvs) ''quotes'' (JArr [])) = Inr quotes'
       \<and> (\<forall>x \<in> set quotes'. well_formed_quote x)"
  then have "search_body w q = Inr (map spec_search_entry (filter spec_symbol_kept quotes'))"
    using search_loop_well_formed[of quotes']
    by (simp add: search_body_def field_of_def)
  then show "search_ticker w q = Inr (map spec_search_entry (filter spec_symbol_kept quotes'))"
    by (simp add: search_ticker_def)
qed

theorem search_results_filtered_witness:
  "search_ticker (example_world (Inl URLError) (Inr example_search)) ''toyota'' =
     Inr [\<lparr>sr_symbol = JStr ''7203.T'', sr_name = JStr ''TOYOTA'', sr_type = JStr ''Equity'',
           sr_exchange = JStr ''JPX''\<rparr>,
          \<lparr>sr_symbol = JStr ''6758.T'', sr_name = JStr ''Sony Group'', sr_type = JStr ''Stock'',
           sr_exchange = JStr []\<rparr>,
          \<lparr>sr_symbol = JStr ''9984.T'', sr_name = JStr ''9984.T'', sr_type = JStr ''Stock'',
           sr_exchange = JStr []\<rparr>]
   \<and> endswith ''7203.T'' ''.T'' \<and> \<not> endswith ''TM'' ''.T''"
proof -
  let ?w = "example_world (Inl URLError) (Inr example_search)"
  let ?kvs = "[(''quotes'', JArr
       [JObj [(''symbol'', JStr ''7203.T''), (''shortname'', JStr ''TOYOTA''),
              (''longname'', JStr ''Toyota Motor''), (''typeDisp'', JStr ''Equity''),
              (''exchange'', JStr ''JPX'')],
        JObj [(''symbol'', JStr ''TM''), (''shortname'', JStr ''Toyota ADR'')],
        JObj [(''symbol'', JStr ''6758.T''), (''longname'', JStr ''Sony Group'')],
        JObj [(''symbol'', JStr ''9984.T'')]])]"
  let ?quotes = "[JObj [(''symbol'', JStr ''7203.T''), (''shortname'', JStr ''TOYOTA''),
              (''longname'', JStr ''Toyota Motor''), (''typeDisp'', JStr ''Equity''),
              (''exchange'', JStr ''JPX'')],
        JObj [(''symbol'', JStr ''TM''), (''shortname'', JStr ''Toyota ADR'')],
        JObj [(''symbol'', JStr ''6758.T''), (''longname'', JStr ''Sony Group'')],
        JObj [(''symbol'', JStr ''9984.T'')]]"
  have h: "search_api ?w ''toyota'' = Inr (JObj ?kvs)
       \<and> py_iter (field_of (JObj ?kvs) ''quotes'' (JArr [])) = Inr ?quotes
       \<and> (\<forall>x \<in> set ?quotes. well_formed_quote x)"
    by (simp add: example_world_def example_search_def field_of_def well_formed_quote_def)
  from search_results_filtered[of ?w "''toyota''" _ ?kvs ?quotes] h
  have "search_ticker ?w ''toyota'' = Inr (map spec_search_entry (filter spec_symbol_kept ?quotes))"
    by blast
  then show ?thesis
    by (simp add: spec_search_entry_def spec_symbol_kept_def field_of_def endswith_def)
qed

subsection \<open>Helper facts about the statistics and the chart loop\<close>

lemma fold_max_fin:
  "fold (\<lambda>y m. if py_gt y m then y else m) (map Fin rs) (Fin r) = Fin (Max (set (r # rs)))"
proof (induction rs arbitrary: r)
  case Nil
  show ?case by simp
next
  case (Cons x rs)
  have "Max (set ((if r < x then x else r) # rs)) = Max (set (r # x # rs))"
    by (cases "set rs = {}") (auto simp: max_def)
  with Cons[of "if r < x then x else r"] show ?case
    by (simp split: if_splits)
qed

lemma fold_min_fin:
  "fold (\<lambda>y m. if py_lt y m then y else m) (map Fin rs) (Fin r) = Fin (Min (set (r # rs)))"
proof (induction rs arbitrary: r)
  case Nil
  show ?case by simp
next
  case (Cons x rs)
  have "Min (set ((if x < r then x else r) # rs)) = Min (set (r # x # rs))"
    by (cases "set rs = {}") (auto simp: min_def)
  with Cons[of "if x < r then x else r"] show ?case
    by (simp split: if_splits)
qed

lemma py_max_fin: "rs \<noteq> [] \<Longrightarrow> py_max (map Fin rs) = Inr (Fin (Max (set rs)))"
  by (cases rs) (simp_all add: fold_max_fin del: set_simps)

lemma py_min_fin: "rs \<noteq> [] \<Longrightarrow> py_min (map Fin rs) = Inr (Fin (Min (set rs)))"
  by (cases rs) (simp_all add: fold_min_fin del: set_simps)

lemma stats_agree:
  assumes "length rs \<noteq> 1 \<or> hd rs \<noteq> 0"
  shows "lambda_stats (map Fin rs) = offline_stats (map Fin rs)"
proof (cases rs)
  case Nil
  then show ?thesis by (simp add: lambda_stats_def offline_stats_def)
next
  case (Cons r rest)
  show ?thesis
  proof (cases "rest = []")
    case True
    with Cons assms have "r \<noteq> 0" by simp
    with Cons True show ?thesis
      by (simp add: lambda_stats_def offline_stats_def)
  next
    case False
    with Cons show ?thesis
      by (simp add: lambda_stats_def offline_stats_def last_map)
  qed
qed

lemma lambda_stats_fin:
  assumes "rs \<noteq> []" "length rs > 1 \<longrightarrow> hd rs \<noteq> 0"
  shows "\<exists>s. lambda_stats (map Fin rs) = Inr s
           \<and> current_price s = Fin (last rs)
           \<and> year_high s = Fin (Max (set rs)) \<and> year_low s = Fin (Min (set rs))
           \<and> data_points s = length rs"
proof -
  from assms(1) obtain r rest where rs: "rs = r # rest" by (cases rs) auto
  have mx: "py_max (map Fin rs) = Inr (Fin (Max (set rs)))"
    and mn: "py_min (map Fin rs) = Inr (Fin (Min (set rs)))"
    using assms(1) by (simp_all add: py_max_fin py_min_fin)
  have l: "last (map Fin rs) = Fin (last rs)" using assms(1) by (simp add: last_map)
  show ?thesis
  proof (cases "rest = []")
    case True
    then show ?thesis using mx mn l by (simp add: lambda_stats_def rs)
  next
    case False
    with assms(2) rs have "r \<noteq> 0" by simp
    then show ?thesis using mx mn l False
      by (simp add: lambda_stats_def rs del: py_max.simps py_min.simps)
  qed
qed





subsection \<open>C4: the two reductions\<close>

text \<open>
  C4. Given the same sequence of valid prices, the reduction of the router's fetcher and
  the reduction of the offline fetcher compute the same summary (current price, high,
  low, percent change, number of points). A sequence of valid prices of both fetchers
  holds no zero, since the offline fetcher drops zero closes: on everything the offline
  fetcher keeps from a frame the two reductions have the same outcome, a summary when
  the sequence is not empty, and they return the same summary on every non-empty sequence
  of numbers other than zero. More generally they have the same outcome on every
  sequence of numbers except the single price 0, which only the router's reduction can
  receive.
\<close>

theorem reductions_agree:
  "lambda_stats (map p_value (offline_chart_data rows)) =
     offline_stats (map p_value (offline_chart_data rows))
   \<and> (offline_chart_data rows \<noteq> [] \<longrightarrow>
        (\<exists>s. lambda_stats (map p_value (offline_chart_data rows)) = Inr s
           \<and> offline_stats (map p_value (offline_chart_data rows)) = Inr s))
   \<and> (rs \<noteq> [] \<and> 0 \<notin> set rs \<longrightarrow>
        (\<exists>s. lambda_stats (map Fin rs) = Inr s \<and> offline_stats (map Fin rs) = Inr s))
   \<and> (length rs \<noteq> 1 \<or> hd rs \<noteq> 0 \<longrightarrow> lambda_stats (map Fin rs) = offline_stats (map Fin rs))"
proof (intro conjI impI)
  obtain rs' where rs': "map p_value (offline_chart_data rows) = map Fin rs'" "0 \<notin> set rs'"
    using offline_values_fin by blast
  have h: "length rs' \<noteq> 1 \<or> hd rs' \<noteq> 0"
    using rs'(2) by (cases rs') auto
  then show eq: "lambda_stats (map p_value (offline_chart_data rows)) =
       offline_stats (map p_value (offline_chart_data rows))"
    by (simp add: rs'(1) stats_agree)
  {
    assume "offline_chart_data rows \<noteq> []"
    with rs'(1) have ne: "rs' \<noteq> []" by auto
    with rs'(2) have "length rs' > 1 \<longrightarrow> hd rs' \<noteq> 0" by (cases rs') auto
    from lambda_stats_fin[OF ne this] obtain s where "lambda_stats (map Fin rs') = Inr s"
      by blast
    with eq rs'(1)
    show "\<exists>s. lambda_stats (map p_value (offline_chart_data rows)) = Inr s
           \<and> offline_stats (map p_value (offline_chart_data rows)) = Inr s"
      by metis
  }
next
  assume a: "rs \<noteq> [] \<and> 0 \<notin> set rs"
  then have hd: "hd rs \<noteq> 0" by (cases rs) auto
  with a obtain s where s: "lambda_stats (map Fin rs) = Inr s"
    using lambda_stats_fin[of rs] by auto
  moreover from hd have "lambda_stats (map Fin rs) = offline_stats (map Fin rs)"
    by (simp add: stats_agree)
  ultimately show "\<exists>s. lambda_stats (map Fin rs) = Inr s \<and> offline_stats (map Fin rs) = Inr s"
    by simp
next
  assume "length rs \<noteq> 1 \<or> hd rs \<noteq> 0"
  then show "lambda_stats (map Fin rs) = offline_stats (map Fin rs)" by (rule stats_agree)
qed

theorem reductions_agree_witness:
  "lambda_stats (map Fin [100, 105, 95, 110, 108]) =
     Inr \<lparr>current_price = Fin 108, year_high = Fin 110, year_low = Fin 95,
          year_change_pct = Fin 8, data_points = 5\<rparr>
   \<and> offline_stats (map Fin [100, 105, 95, 110, 108]) =
     Inr \<lparr>current_price = Fin 108, year_high = Fin 110, year_low = Fin 95,
          year_change_pct = Fin 8, data_points = 5\<rparr>
   \<and> offline_chart_data [(''2025-01-06'', Fin 0), (''2025-01-07'', Fin 300)] =
       [\<lparr>p_time = ''2025-01-07'', p_value = Fin 300\<rparr>]
   \<and> lambda_stats [Fin 300] =
     Inr \<lparr>current_price = Fin 300, year_high = Fin 300, year_low = Fin 300,
          year_change_pct = Fin 0, data_points = 1\<rparr>
   \<and> offline_stats [Fin 300] =
     Inr \<lparr>current_price = Fin 300, year_high = Fin 300, year_low = Fin 300,
          year_change_pct = Fin 0, data_points = 1\<rparr>"
proof -
  let ?rows = "[(''2025-01-06'', Fin 0), (''2025-01-07'', Fin 300 :: pyfloat)]"
  have h: "length [100, 105, 95, 110, 108 :: real] \<noteq> 1 \<or> hd [100, 105, 95, 110, 108 :: real] \<noteq> 0"
    by simp
  have k: "offline_chart_data ?rows = [\<lparr>p_time = ''2025-01-07'', p_value = Fin 300\<rparr>]"
    by (simp add: offline_chart_data_def)
  have one: "lambda_stats [Fin 300] =
     Inr \<lparr>current_price = Fin 300, year_high = Fin 300, year_low = Fin 300,
          year_change_pct = Fin 0, data_points = 1\<rparr>"
    by (simp add: lambda_stats_def)
  from reductions_agree[of ?rows "[100, 105, 95, 110, 108]"] h
  have "lambda_stats (map Fin [100, 105, 95, 110, 108]) =
        offline_stats (map Fin [100, 105, 95, 110, 108])"
    and "lambda_stats (map p_value (offline_chart_data ?rows)) =
        offline_stats (map p_value (offline_chart_data ?rows))"
    by blast+
  with example_stats k one show ?thesis by simp
qed

subsection \<open>C2: one missing price\<close>









end
